theory Spec2Isabelle
  imports Complex_Main "HOL-Library.Log_Nat" "HOL-Library.Product_Lexorder" "HOL-Library.AList"
begin

section \<open>Python floats\<close>

text \<open>
  A Python float is modelled by the rational number it denotes. An arithmetic operation
  computes the exact result and rounds it to the nearest number with a 53-bit significand,
  ties going to the even significand, as IEEE 754 binary64 does. The exponent is not
  bounded: overflow to infinity, subnormal numbers and NaN are outside the model, so the
  model agrees with CPython wherever the magnitudes stay within the binary64 normal range.
\<close>

definition round_half_even :: "rat \<Rightarrow> int" where
  "round_half_even y =
     (let f = \<lfloor>y\<rfloor>; d = y - of_int f
      in if d < 1 / 2 then f
         else if 1 / 2 < d then f + 1
         else if even f then f else f + 1)"

text \<open>\<open>ilog2 x\<close> is the binary exponent of a positive \<open>x\<close>: \<open>2 powi ilog2 x \<le> x < 2 powi (ilog2 x + 1)\<close>.\<close>

definition ilog2 :: "rat \<Rightarrow> int" where
  "ilog2 x =
     (if 1 \<le> x then bitlen \<lfloor>x\<rfloor> - 1
      else let k = bitlen \<lfloor>1 / x\<rfloor>
           in if x * 2 ^ nat k = 2 then 1 - k else - k)"

definition fl :: "rat \<Rightarrow> rat" where
  "fl x =
     (if x = 0 then 0
      else let u = 2 powi (ilog2 \<bar>x\<bar> - 52)
           in of_int (round_half_even (x / u)) * u)"

definition fadd :: "rat \<Rightarrow> rat \<Rightarrow> rat" where
  "fadd a b = fl (a + b)"

definition fsub :: "rat \<Rightarrow> rat \<Rightarrow> rat" where
  "fsub a b = fl (a - b)"

definition fmul :: "rat \<Rightarrow> rat \<Rightarrow> rat" where
  "fmul a b = fl (a * b)"

definition fdiv :: "rat \<Rightarrow> rat \<Rightarrow> rat" where
  "fdiv a b = fl (a / b)"

text \<open>\<^verbatim>\<open>float(n)\<close> for an int, as in the mixed expressions \<^verbatim>\<open>0.6 * target_cal\<close>.\<close>

definition float_of_int :: "int \<Rightarrow> rat" where
  "float_of_int n = fl (of_int n)"

text \<open>
  \<^verbatim>\<open>round(x)\<close> returns the nearest int, a tie going to the even one;
  \<^verbatim>\<open>round(x, n)\<close> rounds the exact value of \<open>x\<close> to \<open>n\<close> decimals the same way and
  returns the float nearest to that decimal; \<^verbatim>\<open>int(x)\<close> truncates towards zero.
\<close>

definition py_round :: "rat \<Rightarrow> int" where
  "py_round x = round_half_even x"

definition py_round_nd :: "rat \<Rightarrow> nat \<Rightarrow> rat" where
  "py_round_nd x n = fl (of_int (round_half_even (x * 10 ^ n)) / 10 ^ n)"

definition py_int :: "rat \<Rightarrow> int" where
  "py_int x = (if 0 \<le> x then \<lfloor>x\<rfloor> else \<lceil>x\<rceil>)"

section \<open>Python strings\<close>

text \<open>
  Strings are lists of 8-bit characters; \<^verbatim>\<open>str.lower\<close> and \<^verbatim>\<open>str.strip\<close> are modelled
  on the ASCII range, where the catalog's and the profile's labels live. Python's
  \<^verbatim>\<open>str.lower\<close> also maps letters outside ASCII, which \<open>lower\<close> leaves as they are; the
  general theorems below treat \<open>lower\<close> as an arbitrary function and hold for any
  lowercasing; it is evaluated only on ASCII strings, those of the closed examples and
  the label \<^verbatim>\<open>moderate\<close>.
\<close>

definition lower_char :: "char \<Rightarrow> char" where
  "lower_char c =
     (let n = (of_char c :: nat) in if 65 \<le> n \<and> n \<le> 90 then char_of (n + 32) else c)"

definition lower :: "string \<Rightarrow> string" where
  "lower s = map lower_char s"

definition is_space :: "char \<Rightarrow> bool" where
  "is_space c = ((of_char c :: nat) \<in> {9, 10, 11, 12, 13, 28, 29, 30, 31, 32})"

definition strip :: "string \<Rightarrow> string" where
  "strip s = rev (dropWhile is_space (rev (dropWhile is_space s)))"

fun starts_with :: "string \<Rightarrow> string \<Rightarrow> bool" where
  "starts_with [] t = True"
| "starts_with (a # n) [] = False"
| "starts_with (a # n) (b # t) = (a = b \<and> starts_with n t)"

text \<open>\<open>is_substring n t\<close> is Python's \<^verbatim>\<open>n in t\<close> on strings.\<close>

fun is_substring :: "string \<Rightarrow> string \<Rightarrow> bool" where
  "is_substring n [] = (n = [])"
| "is_substring n (c # cs) = (starts_with n (c # cs) \<or> is_substring n cs)"

section \<open>The profile (app/data/schema.py)\<close>

record PersonalDetails =
  age :: int
  gender :: string
  height_cm :: rat
  weight_kg :: rat
  bmi :: "rat option"
  body_type :: "string option"

record MedicalParameters =
  conditions :: "string list"
  allergies :: "string list"
  medications :: "string list"
  blood_sugar_mgdl :: "rat option"
  blood_pressure :: "(int \<times> int) option"
  cholesterol_mgdl :: "rat option"
  hemoglobin_gdl :: "rat option"

record DietaryPreferences =
  diet_type :: string
  likes :: "string list"
  dislikes :: "string list"
  preferred_cuisine :: "string list"
  meal_frequency :: int
  snacking_preference :: string

record LifestyleParameters =
  activity_level :: string
  exercise_routine :: string
  sleep_hours :: rat
  stress_level :: string

record NutritionalRequirements =
  daily_calories :: "int option"
  protein_g :: "rat option"
  carbs_g :: "rat option"
  fats_g :: "rat option"
  salt_limit_g :: "rat option"
  sugar_limit_g :: "rat option"
  water_liters :: "rat option"

record SpecialDietRules =
  low_gi :: bool
  low_sodium :: bool
  high_fiber :: bool
  renal :: bool
  high_protein :: bool
  anti_inflammatory :: bool
  weight_gain :: bool
  weight_loss :: bool
  gluten_free :: bool
  lactose_free :: bool

record UserProfile =
  personal :: PersonalDetails
  medical :: MedicalParameters
  dietary :: DietaryPreferences
  lifestyle :: LifestyleParameters
  nutrition :: NutritionalRequirements
  special :: SpecialDietRules

section \<open>Constraint derivation (app/rules/engine.py, build_constraints)\<close>

text \<open>
  The local variables that \<^verbatim>\<open>build_constraints\<close> mutates. Each \<^verbatim>\<open>if\<close> block of the
  function is one step on this record, in the order of the source.
\<close>

record bc_locals =
  required :: "string set"
  prefer_s :: "string set"
  avoid :: "string set"
  avoid_names :: "string set"
  allergens :: "string set"
  sodium_limit :: "int option"
  explanations :: "string list"

text \<open>\<^verbatim>\<open>profile.medical.cholesterol_mgdl and profile.medical.cholesterol_mgdl >= 200\<close>\<close>

definition high_cholesterol :: "UserProfile \<Rightarrow> bool" where
  "high_cholesterol profile =
     (case cholesterol_mgdl (medical profile) of
        None \<Rightarrow> False
      | Some c \<Rightarrow> c \<noteq> 0 \<and> 200 \<le> c)"

definition rule_diabetes :: "string set \<Rightarrow> bc_locals \<Rightarrow> bc_locals" where
  "rule_diabetes conds s =
     (if ''diabetes'' \<in> conds
      then s\<lparr>required := insert ''low_gi'' (required s),
             prefer_s := prefer_s s \<union> {''high_fiber''},
             avoid := avoid s \<union> {''high_gi'', ''refined_sugar'', ''refined_carbs''},
             explanations := explanations s @
               [''Applied diabetes rules: prefer low GI, high fiber; avoid refined sugar/carbs.'']\<rparr>
      else s)"

definition rule_hypertension :: "string set \<Rightarrow> UserProfile \<Rightarrow> bc_locals \<Rightarrow> bc_locals" where
  "rule_hypertension conds profile s =
     (if ''hypertension'' \<in> conds \<or> low_sodium (special profile)
      then s\<lparr>prefer_s := insert ''low_sodium'' (prefer_s s),
             avoid := insert ''high_sodium'' (avoid s),
             sodium_limit := (case sodium_limit s of None \<Rightarrow> Some 1500 | Some l \<Rightarrow> Some (min l 1500)),
             explanations := explanations s @
               [''Applied hypertension/low sodium rules: limit sodium ~1500 mg/day, avoid high-sodium foods.'']\<rparr>
      else s)"

definition rule_heart :: "string set \<Rightarrow> UserProfile \<Rightarrow> bc_locals \<Rightarrow> bc_locals" where
  "rule_heart conds profile s =
     (if ''heart disease'' \<in> conds \<or> high_cholesterol profile
      then s\<lparr>prefer_s := prefer_s s \<union> {''omega3'', ''anti_inflammatory'', ''low_saturated_fat''},
             avoid := avoid s \<union> {''high_saturated_fat'', ''fried'', ''processed''},
             explanations := explanations s @
               [''Applied heart/cholesterol rules: prefer omega-3 and anti-inflammatory; avoid fried/processed/high saturated fat.'']\<rparr>
      else s)"

definition rule_kidney :: "string set \<Rightarrow> UserProfile \<Rightarrow> bc_locals \<Rightarrow> bc_locals" where
  "rule_kidney conds profile s =
     (if ''kidney disease'' \<in> conds \<or> renal (special profile)
      then s\<lparr>prefer_s := prefer_s s \<union> {''low_potassium'', ''low_phosphorus''},
             avoid := avoid s \<union> {''high_potassium'', ''high_phosphorus''},
             avoid_names := avoid_names s \<union> {''banana'', ''rajma''},
             explanations := explanations s @
               [''Applied renal rules: limit potassium/phosphorus; avoid banana/rajma in this catalog.'']\<rparr>
      else s)"

definition rule_pcos :: "string set \<Rightarrow> bc_locals \<Rightarrow> bc_locals" where
  "rule_pcos conds s =
     (if ''pcod'' \<in> conds \<or> ''pcos'' \<in> conds
      then s\<lparr>required := insert ''low_gi'' (required s),
             prefer_s := prefer_s s \<union> {''anti_inflammatory'', ''high_fiber'', ''lean_protein''},
             avoid := avoid s \<union> {''refined_sugar'', ''refined_carbs'', ''fried''},
             explanations := explanations s @
               [''Applied PCOD/PCOS rules: low GI, anti-inflammatory, high fiber, lean protein.'']\<rparr>
      else s)"

definition rule_gastric :: "string set \<Rightarrow> bc_locals \<Rightarrow> bc_locals" where
  "rule_gastric conds s =
     (if ''gastric'' \<in> conds \<or> ''gastric issues'' \<in> conds
      then s\<lparr>avoid := avoid s \<union> {''spicy'', ''fried''},
             prefer_s := prefer_s s \<union> {''high_fiber''},
             explanations := explanations s @
               [''Applied gastric rules: avoid spicy/fried; emphasize gentle fiber and cooked veg.'']\<rparr>
      else s)"

definition rule_thyroid :: "string set \<Rightarrow> bc_locals \<Rightarrow> bc_locals" where
  "rule_thyroid conds s =
     (if ''thyroid'' \<in> conds
      then s\<lparr>avoid_names := avoid_names s \<union> {''tofu''},
             explanations := explanations s @
               [''Applied thyroid caution: limited soy-heavy items (e.g., tofu).'']\<rparr>
      else s)"

definition toggle_low_gi :: "UserProfile \<Rightarrow> bc_locals \<Rightarrow> bc_locals" where
  "toggle_low_gi profile s =
     (if low_gi (special profile)
      then s\<lparr>required := insert ''low_gi'' (required s),
             explanations := explanations s @ [''Special: Low GI enabled.'']\<rparr>
      else s)"

definition toggle_high_fiber :: "UserProfile \<Rightarrow> bc_locals \<Rightarrow> bc_locals" where
  "toggle_high_fiber profile s =
     (if high_fiber (special profile)
      then s\<lparr>prefer_s := insert ''high_fiber'' (prefer_s s),
             explanations := explanations s @ [''Special: High fiber enabled.'']\<rparr>
      else s)"

definition toggle_high_protein :: "UserProfile \<Rightarrow> bc_locals \<Rightarrow> bc_locals" where
  "toggle_high_protein profile s =
     (if high_protein (special profile)
      then s\<lparr>prefer_s := insert ''lean_protein'' (prefer_s s),
             explanations := explanations s @ [''Special: High protein enabled.'']\<rparr>
      else s)"

definition toggle_anti_inflammatory :: "UserProfile \<Rightarrow> bc_locals \<Rightarrow> bc_locals" where
  "toggle_anti_inflammatory profile s =
     (if anti_inflammatory (special profile)
      then s\<lparr>prefer_s := insert ''anti_inflammatory'' (prefer_s s),
             explanations := explanations s @ [''Special: Anti-inflammatory enabled.'']\<rparr>
      else s)"

definition toggle_gluten_free :: "UserProfile \<Rightarrow> bc_locals \<Rightarrow> bc_locals" where
  "toggle_gluten_free profile s =
     (if gluten_free (special profile)
      then s\<lparr>allergens := insert ''gluten'' (allergens s),
             explanations := explanations s @ [''Special: Gluten-free enabled.'']\<rparr>
      else s)"

definition toggle_lactose_free :: "UserProfile \<Rightarrow> bc_locals \<Rightarrow> bc_locals" where
  "toggle_lactose_free profile s =
     (if lactose_free (special profile)
      then s\<lparr>allergens := insert ''lactose'' (allergens s),
             explanations := explanations s @ [''Special: Lactose-free enabled.'']\<rparr>
      else s)"

text \<open>The values of the locals before the first rule (engine.py, lines 43 to 52).\<close>

definition bc_init :: "UserProfile \<Rightarrow> bc_locals" where
  "bc_init profile =
     \<lparr>required = {},
      prefer_s = {},
      avoid = {''fried'', ''processed'', ''refined_sugar'', ''refined_carbs''},
      avoid_names = {},
      allergens = lower ` set (allergies (medical profile)),
      sodium_limit = None,
      explanations = []\<rparr>"

definition bc_rules :: "UserProfile \<Rightarrow> bc_locals \<Rightarrow> bc_locals" where
  "bc_rules profile s =
     (let conds = lower ` set (conditions (medical profile));
          s = rule_diabetes conds s;
          s = rule_hypertension conds profile s;
          s = rule_heart conds profile s;
          s = rule_kidney conds profile s;
          s = rule_pcos conds s;
          s = rule_gastric conds s;
          s = rule_thyroid conds s;
          s = toggle_low_gi profile s;
          s = toggle_high_fiber profile s;
          s = toggle_high_protein profile s;
          s = toggle_anti_inflammatory profile s;
          s = toggle_gluten_free profile s;
          s = toggle_lactose_free profile s
      in s)"

record ConstraintSpec =
  required_tags :: "string set"
  prefer_tags :: "string set"
  avoid_tags :: "string set"
  avoid_names :: "string set"
  exclude_allergens :: "string set"
  diet_types_allowed :: "string set"
  cuisine_preferences :: "string list"
  max_sodium_mg :: "int option"

definition build_constraints :: "UserProfile \<Rightarrow> ConstraintSpec \<times> string list" where
  "build_constraints profile =
     (let s = bc_rules profile (bc_init profile);
          cuisines = map lower (preferred_cuisine (dietary profile));
          diet_allowed = {diet_type (dietary profile)};
          c = \<lparr>required_tags = required s,
               prefer_tags = prefer_s s,
               avoid_tags = avoid s,
               avoid_names = bc_locals.avoid_names s,
               exclude_allergens = allergens s,
               diet_types_allowed = diet_allowed,
               cuisine_preferences = cuisines,
               max_sodium_mg = sodium_limit s\<rparr>
      in (c, explanations s))"

section \<open>The catalog entry (app/data/foods.py)\<close>

record FoodItem =
  name :: string
  calories :: int
  protein_g :: rat
  carbs_g :: rat
  fat_g :: rat
  fiber_g :: rat
  sodium_mg :: int
  gi :: string
  tags :: "string list"
  diet_types :: "string list"
  meal_types :: "string list"
  cuisines :: "string list"
  allergens :: "string list"

section \<open>Filtering and ranking (app/rules/engine.py, filter_foods)\<close>

definition contains_any :: "string \<Rightarrow> string set \<Rightarrow> bool" where
  "contains_any text needles = (let t = lower text in \<exists>n\<in>needles. is_substring n t)"

text \<open>
  The nested function \<^verbatim>\<open>allowed\<close>: the chain of early returns, in the order of the source.
  The block on the required tags works on a copy \<open>req\<close> of the set, from which
  \<^verbatim>\<open>low_gi\<close> is discarded once the food has passed on its GI attribute or its tag.
\<close>

definition allowed :: "UserProfile \<Rightarrow> ConstraintSpec \<Rightarrow> FoodItem \<Rightarrow> bool" where
  "allowed profile constraints food =
     (let dislikes = lower ` set (dislikes (dietary profile)) in
      if diet_type (dietary profile) \<notin> set (diet_types food) then False
      else if \<exists>a\<in>set (allergens food). a \<in> exclude_allergens constraints then False
      else if contains_any (name food) (avoid_names constraints) then False
      else if \<exists>tag\<in>set (tags food). tag \<in> avoid_tags constraints then False
      else if ''high_gi'' \<in> avoid_tags constraints \<and> lower (gi food) = ''high'' then False
      else if required_tags constraints \<noteq> {} \<and>
              (let req = required_tags constraints in
               if ''low_gi'' \<in> req
               then (let low_gi_ok = (lower (gi food) = ''low'' \<or> (\<exists>t\<in>set (tags food). t = ''low_gi''))
                     in if \<not> low_gi_ok then True
                        else (let req = req - {''low_gi''}
                              in req \<noteq> {} \<and> \<not> (\<exists>tag\<in>set (tags food). tag \<in> req)))
               else req \<noteq> {} \<and> \<not> (\<exists>tag\<in>set (tags food). tag \<in> req))
           then False
      else if \<exists>sub\<in>dislikes. is_substring sub (lower (name food)) then False
      else True)"

definition score :: "UserProfile \<Rightarrow> ConstraintSpec \<Rightarrow> FoodItem \<Rightarrow> int" where
  "score profile constraints food =
     (let likes = lower ` set (likes (dietary profile));
          s = 0;
          s = (if cuisine_preferences constraints \<noteq> [] \<and>
                  (\<exists>c\<in>set (cuisine_preferences constraints). c \<in> set (cuisines food))
               then s + 2 else s);
          s = (if \<exists>tag\<in>set (tags food). tag \<in> prefer_tags constraints then s + 1 else s);
          s = (if \<exists>like\<in>likes. is_substring like (lower (name food)) then s + 1 else s)
      in - s)"

text \<open>\<^verbatim>\<open>list.sort(key=score)\<close> is stable, as \<^const>\<open>sort_key\<close> is.\<close>

definition filter_foods :: "FoodItem list \<Rightarrow> UserProfile \<Rightarrow> ConstraintSpec \<Rightarrow> FoodItem list" where
  "filter_foods foods profile constraints =
     (let filtered = filter (allowed profile constraints) foods
      in sort_key (score profile constraints) filtered)"

section \<open>Python dicts\<close>

text \<open>
  A dict is an association list in insertion order with distinct keys. \<open>dict_get\<close> is
  \<^verbatim>\<open>d.get(k, default)\<close>; \<open>dict_item\<close> is the subscript \<^verbatim>\<open>d[k]\<close>, used below only with
  keys that the dict holds; \<^const>\<open>AList.update\<close> is the assignment \<^verbatim>\<open>d[k] = v\<close>, which
  keeps the position of a key already there and appends a new one.
\<close>

definition dict_get :: "('k \<times> 'v) list \<Rightarrow> 'k \<Rightarrow> 'v \<Rightarrow> 'v" where
  "dict_get d k dflt = (case map_of d k of Some v \<Rightarrow> v | None \<Rightarrow> dflt)"

definition dict_item :: "('k \<times> 'v) list \<Rightarrow> 'k \<Rightarrow> 'v" where
  "dict_item d k = the (map_of d k)"

section \<open>Configuration tables (app/config.py)\<close>

definition DEFAULT_MEAL_SPLIT :: "(string \<times> rat) list" where
  "DEFAULT_MEAL_SPLIT =
     [(''breakfast'', fl (25 / 100)), (''lunch'', fl (35 / 100)),
      (''dinner'', fl (30 / 100)), (''snacks'', fl (10 / 100))]"

definition ACTIVITY_FACTORS :: "(string \<times> rat) list" where
  "ACTIVITY_FACTORS =
     [(''sedentary'', fl (12 / 10)), (''light'', fl (1375 / 1000)), (''moderate'', fl (155 / 100)),
      (''active'', fl (1725 / 1000)), (''athlete'', fl (19 / 10))]"

definition STRESS_MULTIPLIER :: "(string \<times> rat) list" where
  "STRESS_MULTIPLIER =
     [(''low'', fl 1), (''moderate'', fl (103 / 100)), (''high'', fl (106 / 100))]"

section \<open>Calculators (app/services/calculators.py)\<close>

definition activity_factor :: "string \<Rightarrow> rat" where
  "activity_factor level =
     (let level = lower (strip (if level = [] then ''sedentary'' else level))
      in dict_get ACTIVITY_FACTORS level (dict_item ACTIVITY_FACTORS ''sedentary''))"

definition stress_factor :: "string \<Rightarrow> rat" where
  "stress_factor level =
     (let level = lower (strip (if level = [] then ''moderate'' else level))
      in dict_get STRESS_MULTIPLIER level (dict_item STRESS_MULTIPLIER ''moderate''))"

definition bmr_mifflin_st_jeor :: "UserProfile \<Rightarrow> rat" where
  "bmr_mifflin_st_jeor profile =
     (let w = weight_kg (personal profile);
          h = height_cm (personal profile);
          a = age (personal profile);
          g = gender (personal profile);
          base = fsub (fadd (fmul (float_of_int 10) w) (fmul (fl (625 / 100)) h)) (float_of_int (5 * a))
      in if g = ''male'' then fadd base (float_of_int 5)
         else if g = ''female'' then fsub base (float_of_int 161)
         else fsub base (float_of_int 78))"

text \<open>
  The body of \<^verbatim>\<open>estimate_daily_calories\<close> below the override test: BMR times the
  activity and stress factors, the goal adjustment, and \<^verbatim>\<open>int(round(tdee))\<close>.
\<close>

definition tdee_calories :: "UserProfile \<Rightarrow> int" where
  "tdee_calories profile =
     (let bmr = bmr_mifflin_st_jeor profile;
          tdee = fmul bmr (activity_factor (activity_level (lifestyle profile)));
          tdee = fmul tdee (stress_factor (stress_level (lifestyle profile)));
          tdee = (if weight_loss (special profile) \<and> \<not> weight_gain (special profile)
                  then fmul tdee (fl (85 / 100))
                  else if weight_gain (special profile) \<and> \<not> weight_loss (special profile)
                  then fmul tdee (fl (115 / 100))
                  else tdee)
      in py_round tdee)"

text \<open>\<^verbatim>\<open>if profile.nutrition.daily_calories:\<close> is false for \<^verbatim>\<open>None\<close> and for \<^verbatim>\<open>0\<close>.\<close>

definition estimate_daily_calories :: "UserProfile \<Rightarrow> int" where
  "estimate_daily_calories profile =
     (case daily_calories (nutrition profile) of
        Some d \<Rightarrow> if d \<noteq> 0 then d else tdee_calories profile
      | None \<Rightarrow> tdee_calories profile)"

text \<open>
  The macro percentages of \<^verbatim>\<open>compute_macros\<close>, the conditions of its five \<^verbatim>\<open>if\<close>
  statements being the arguments, in the order of the source.
\<close>

definition macro_pcts_of :: "bool \<Rightarrow> bool \<Rightarrow> bool \<Rightarrow> bool \<Rightarrow> bool \<Rightarrow> rat \<times> rat \<times> rat" where
  "macro_pcts_of diabetes_or_low_gi high_prot loss kidney heart =
     (let (p_pct, c_pct, f_pct) = (fl (20 / 100), fl (50 / 100), fl (30 / 100));
          (p_pct, c_pct, f_pct) =
            (if diabetes_or_low_gi then (fl (25 / 100), fl (45 / 100), fl (30 / 100))
             else (p_pct, c_pct, f_pct));
          (p_pct, c_pct, f_pct) =
            (if high_prot then (fl (30 / 100), fl (40 / 100), fl (30 / 100))
             else (p_pct, c_pct, f_pct));
          (p_pct, c_pct, f_pct) =
            (if loss
             then (let p_pct = max p_pct (fl (30 / 100));
                       c_pct = min c_pct (fl (45 / 100));
                       f_pct = fsub (fsub (fl 1) p_pct) c_pct
                   in (p_pct, c_pct, f_pct))
             else (p_pct, c_pct, f_pct));
          (p_pct, c_pct, f_pct) =
            (if kidney
             then (let p_pct = min p_pct (fl (18 / 100));
                       c_pct = max c_pct (fl (47 / 100));
                       f_pct = fsub (fsub (fl 1) p_pct) c_pct
                   in (p_pct, c_pct, f_pct))
             else (p_pct, c_pct, f_pct));
          (p_pct, c_pct, f_pct) =
            (if heart
             then (let f_pct = min f_pct (fl (30 / 100));
                       c_pct = min c_pct (fl (50 / 100));
                       p_pct = fsub (fsub (fl 1) f_pct) c_pct
                   in (p_pct, c_pct, f_pct))
             else (p_pct, c_pct, f_pct))
      in (p_pct, c_pct, f_pct))"

definition macro_pcts :: "UserProfile \<Rightarrow> rat \<times> rat \<times> rat" where
  "macro_pcts profile =
     (let conds = lower ` set (conditions (medical profile))
      in macro_pcts_of
           (''diabetes'' \<in> conds \<or> low_gi (special profile))
           (high_protein (special profile))
           (weight_loss (special profile))
           (''kidney disease'' \<in> conds \<or> renal (special profile))
           (''heart disease'' \<in> conds \<or> high_cholesterol profile))"

text \<open>The gram values before the final \<^verbatim>\<open>round(_, 1)\<close>: 4 kcal/g for protein and carbs, 9 for fats.\<close>

definition macro_grams :: "UserProfile \<Rightarrow> int \<Rightarrow> rat \<times> rat \<times> rat" where
  "macro_grams profile kcal =
     (let (p_pct, c_pct, f_pct) = macro_pcts profile;
          protein = fdiv (fmul (float_of_int kcal) p_pct) (fl 4);
          carbs = fdiv (fmul (float_of_int kcal) c_pct) (fl 4);
          fats = fdiv (fmul (float_of_int kcal) f_pct) (fl 9)
      in (protein, carbs, fats))"

text \<open>
  \<^verbatim>\<open>if profile.nutrition.protein_g and profile.nutrition.carbs_g and profile.nutrition.fats_g:\<close>
  an override that is \<^verbatim>\<open>None\<close> or \<^verbatim>\<open>0.0\<close> is false.
\<close>

definition macros_overridden :: "UserProfile \<Rightarrow> bool" where
  "macros_overridden profile =
     (case (NutritionalRequirements.protein_g (nutrition profile),
            NutritionalRequirements.carbs_g (nutrition profile),
            fats_g (nutrition profile)) of
        (Some p, Some c, Some f) \<Rightarrow> p \<noteq> 0 \<and> c \<noteq> 0 \<and> f \<noteq> 0
      | _ \<Rightarrow> False)"

definition compute_macros :: "UserProfile \<Rightarrow> int \<Rightarrow> (string \<times> rat) list" where
  "compute_macros profile kcal =
     (if macros_overridden profile
      then [(''protein_g'', the (NutritionalRequirements.protein_g (nutrition profile))),
            (''carbs_g'', the (NutritionalRequirements.carbs_g (nutrition profile))),
            (''fats_g'', the (fats_g (nutrition profile)))]
      else (let (protein, carbs, fats) = macro_grams profile kcal
            in [(''protein_g'', py_round_nd protein 1),
                (''carbs_g'', py_round_nd carbs 1),
                (''fats_g'', py_round_nd fats 1)]))"

section \<open>Planner (app/services/planner.py)\<close>

record MealItem =
  name :: string
  calories :: int
  protein_g :: rat
  carbs_g :: rat
  fats_g :: rat
  fiber_g :: rat
  sodium_mg :: int

record DayPlan =
  meals :: "(string \<times> MealItem list) list"
  totals :: "(string \<times> rat) list"
  meal_split :: "(string \<times> rat) list"

definition to_item :: "FoodItem \<Rightarrow> MealItem" where
  "to_item f =
     \<lparr>name = FoodItem.name f,
      calories = FoodItem.calories f,
      protein_g = FoodItem.protein_g f,
      carbs_g = FoodItem.carbs_g f,
      fats_g = fat_g f,
      fiber_g = FoodItem.fiber_g f,
      sodium_mg = FoodItem.sodium_mg f\<rparr>"

definition cal_diff :: "int \<Rightarrow> FoodItem \<Rightarrow> int" where
  "cal_diff target_cal food = \<bar>FoodItem.calories food - target_cal\<bar>"

text \<open>
  \<^verbatim>\<open>sorted\<close> with a tuple key is a stable sort on the lexicographic order of the pairs.
  Each of the two \<^verbatim>\<open>for ... break\<close> loops takes the first candidate that passes its
  test, which is \<^const>\<open>List.find\<close>. The test \<^verbatim>\<open>current_cal < 0.6 * target_cal\<close> compares
  an int with the float product.
\<close>

definition pick_items_for_meal :: "FoodItem list \<Rightarrow> int \<Rightarrow> int \<Rightarrow> MealItem list" where
  "pick_items_for_meal cands target_cal sodium_budget =
     (if cands = [] then []
      else
        let cands_sorted = sort_key (\<lambda>f. (cal_diff target_cal f, FoodItem.sodium_mg f)) cands
        in case List.find (\<lambda>f. FoodItem.sodium_mg f \<le> sodium_budget) cands_sorted of
             None \<Rightarrow> []
           | Some f \<Rightarrow>
               let picked = [to_item f];
                   sodium_budget = sodium_budget - FoodItem.sodium_mg f;
                   current_cal = sum_list (map calories picked)
               in if of_int current_cal < fmul (fl (6 / 10)) (float_of_int target_cal)
                  then (case List.find
                               (\<lambda>f. FoodItem.calories f \<le> target_cal - current_cal \<and>
                                    FoodItem.sodium_mg f \<le> sodium_budget \<and>
                                    FoodItem.name f \<noteq> name (picked ! 0))
                               cands_sorted of
                          None \<Rightarrow> picked
                        | Some f \<Rightarrow> picked @ [to_item f])
                  else picked)"

text \<open>
  The loop \<^verbatim>\<open>for k in split: split[k] = round(split[k] / total, 4)\<close> divides by the sum
  of the four fractions, which is close to 1 on every path.
\<close>

definition compute_meal_split :: "UserProfile \<Rightarrow> (string \<times> rat) list" where
  "compute_meal_split profile =
     (let freq = max 3 (min 6 (if meal_frequency (dietary profile) = 0 then 3
                                else meal_frequency (dietary profile)));
          snack_pref = lower (if snacking_preference (dietary profile) = [] then ''moderate''
                              else snacking_preference (dietary profile));
          split = DEFAULT_MEAL_SPLIT;
          snack_base = dict_get [(''low'', fl (7 / 100)), (''moderate'', fl (10 / 100)),
                                 (''high'', fl (15 / 100))] snack_pref (fl (10 / 100));
          split =
            (if 4 \<le> freq
             then (let extra = fmul (fl (3 / 100)) (float_of_int (freq - 3));
                       snack_share = min (fl (20 / 100)) (fadd snack_base extra);
                       reduce = fsub snack_share (dict_item split ''snacks'');
                       lunch_dinner_total = fadd (dict_item split ''lunch'') (dict_item split ''dinner'');
                       split = AList.update ''snacks'' snack_share split;
                       split = AList.update ''lunch''
                                 (fsub (dict_item split ''lunch'')
                                    (fmul reduce (fdiv (dict_item split ''lunch'') lunch_dinner_total)))
                                 split;
                       split = AList.update ''dinner''
                                 (fsub (dict_item split ''dinner'')
                                    (fmul reduce (fdiv (dict_item split ''dinner'') lunch_dinner_total)))
                                 split
                   in split)
             else (let delta = fsub snack_base (dict_item split ''snacks'')
                   in if fl (1 / 1000000) < \<bar>delta\<bar>
                      then (let split = AList.update ''snacks'' snack_base split;
                                split = AList.update ''lunch'' (fsub (dict_item split ''lunch'') delta) split
                            in split)
                      else split));
          total = foldl fadd 0 (map snd split)
      in map (\<lambda>(k, v). (k, py_round_nd (fdiv v total) 4)) split)"

definition candidates :: "FoodItem list \<Rightarrow> string \<Rightarrow> FoodItem list" where
  "candidates filtered meal = filter (\<lambda>f. meal \<in> set (meal_types f)) filtered"

text \<open>\<^verbatim>\<open>round_nearest\<close> of app/utils/helpers.py: \<^verbatim>\<open>base * round(x / base)\<close>.\<close>

definition round_nearest :: "rat \<Rightarrow> rat \<Rightarrow> rat" where
  "round_nearest x base = fmul base (float_of_int (py_round (fdiv x base)))"

text \<open>
  The nested function \<^verbatim>\<open>agg\<close> and the loop over the meals that adds it up: the calorie
  and sodium totals are sums of ints, the four gram totals are float sums in the order of
  the items.
\<close>

definition agg :: "MealItem list \<Rightarrow> (string \<times> rat) list" where
  "agg meal_items =
     foldl (\<lambda>tot i.
              [(''calories'', dict_item tot ''calories'' + of_int (calories i)),
               (''protein_g'', fadd (dict_item tot ''protein_g'') (protein_g i)),
               (''carbs_g'', fadd (dict_item tot ''carbs_g'') (carbs_g i)),
               (''fats_g'', fadd (dict_item tot ''fats_g'') (fats_g i)),
               (''fiber_g'', fadd (dict_item tot ''fiber_g'') (fiber_g i)),
               (''sodium_mg'', dict_item tot ''sodium_mg'' + of_int (sodium_mg i))])
           [(''calories'', 0), (''protein_g'', 0), (''carbs_g'', 0), (''fats_g'', 0),
            (''fiber_g'', 0), (''sodium_mg'', 0)]
           meal_items"

definition day_totals :: "(string \<times> MealItem list) list \<Rightarrow> (string \<times> rat) list" where
  "day_totals ms =
     (let tot =
            foldl (\<lambda>tot (m, items).
                     let mtot = agg items
                     in [(''calories'', dict_item tot ''calories'' + dict_item mtot ''calories''),
                         (''protein_g'', fadd (dict_item tot ''protein_g'') (dict_item mtot ''protein_g'')),
                         (''carbs_g'', fadd (dict_item tot ''carbs_g'') (dict_item mtot ''carbs_g'')),
                         (''fats_g'', fadd (dict_item tot ''fats_g'') (dict_item mtot ''fats_g'')),
                         (''fiber_g'', fadd (dict_item tot ''fiber_g'') (dict_item mtot ''fiber_g'')),
                         (''sodium_mg'', dict_item tot ''sodium_mg'' + dict_item mtot ''sodium_mg'')])
                  [(''calories'', 0), (''protein_g'', 0), (''carbs_g'', 0), (''fats_g'', 0),
                   (''fiber_g'', 0), (''sodium_mg'', 0)]
                  ms
      in foldl (\<lambda>tot k. AList.update k (round_nearest (dict_item tot k) (fl (1 / 10))) tot)
           tot [''protein_g'', ''carbs_g'', ''fats_g'', ''fiber_g''])"

text \<open>
  \<^verbatim>\<open>assemble_day_plan\<close>, with the catalog that \<^verbatim>\<open>get_foods()\<close> loads as the argument
  \<open>all_foods\<close>.
\<close>

definition assemble_day_plan ::
  "FoodItem list \<Rightarrow> UserProfile \<Rightarrow> int \<Rightarrow> int \<Rightarrow> DayPlan \<times> string list" where
  "assemble_day_plan all_foods profile kcal sodium_lim =
     (let constraints = fst (build_constraints profile);
          filtered = filter_foods all_foods profile constraints;
          split = compute_meal_split profile;
          sodium_by_meal = map (\<lambda>(m, v). (m, py_int (fmul (float_of_int sodium_lim) v))) split;
          planner_notes = [];
          ms = map (\<lambda>(m, v). (m, [])) split;
          (ms, planner_notes) =
            foldl (\<lambda>(ms, planner_notes) meal.
                     let target_cal = py_round (fmul (dict_item split meal) (float_of_int kcal));
                         picks = pick_items_for_meal (candidates filtered meal) target_cal
                                   (dict_item sodium_by_meal meal)
                     in (AList.update meal picks ms,
                         if picks = []
                         then planner_notes @
                                [''No candidates found for '' @ meal @
                                 '' meeting constraints; consider relaxing dislikes or cuisines.'']
                         else planner_notes))
                  (ms, planner_notes) [''breakfast'', ''lunch'', ''dinner''];
          snack_cands = (if candidates filtered ''snacks'' \<noteq> [] then candidates filtered ''snacks''
                         else candidates filtered ''snack'');
          (ms, planner_notes) =
            (if snack_cands \<noteq> []
             then (let target_cal = py_round (fmul (dict_item split ''snacks'') (float_of_int kcal));
                       picks = pick_items_for_meal snack_cands target_cal
                                 (dict_item sodium_by_meal ''snacks'')
                   in (AList.update ''snacks'' picks ms, planner_notes))
             else (AList.update ''snacks'' [] ms,
                   planner_notes @ [''No snack candidates available under current constraints.'']))
      in (\<lparr>meals = ms, totals = day_totals ms, meal_split = split\<rparr>, planner_notes))"

definition week_days :: "string list" where
  "week_days = [''Mon'', ''Tue'', ''Wed'', ''Thu'', ''Fri'', ''Sat'', ''Sun'']"

text \<open>
  \<^verbatim>\<open>generate_weekly_plan\<close>: the outer loop over \<^verbatim>\<open>enumerate(week_days)\<close> and the inner
  loop over the items of \<^verbatim>\<open>day_plan.meals\<close>, each assigning into a dict that starts empty.
\<close>

definition day_meals_of :: "nat \<Rightarrow> (string \<times> MealItem list) list \<Rightarrow> (string \<times> MealItem list) list" where
  "day_meals_of idx ms =
     foldl (\<lambda>day_meals (meal, items).
              if items = [] then AList.update meal [] day_meals
              else (let rot = idx mod length items
                    in AList.update meal [items ! rot] day_meals))
           [] ms"

definition generate_weekly_plan :: "DayPlan \<Rightarrow> (string \<times> (string \<times> MealItem list) list) list" where
  "generate_weekly_plan day_plan =
     foldl (\<lambda>weekly (idx, day). AList.update day (day_meals_of idx (meals day_plan)) weekly)
           [] (enumerate 0 week_days)"

section \<open>Example inputs\<close>

text \<open>
  The profile of the calorie scenario: a 45 year old man of 175 cm and 80 kg, sedentary,
  low stress, no conditions, no overrides and no toggles. The other examples change single
  fields of it.
\<close>

definition scenario_profile :: UserProfile where
  "scenario_profile =
     \<lparr>personal = \<lparr>age = 45, gender = ''male'', height_cm = 175, weight_kg = 80,
                   bmi = None, body_type = None\<rparr>,
      medical = \<lparr>conditions = [], allergies = [], medications = [], blood_sugar_mgdl = None,
                  blood_pressure = None, cholesterol_mgdl = None, hemoglobin_gdl = None\<rparr>,
      dietary = \<lparr>diet_type = ''veg'', likes = [], dislikes = [], preferred_cuisine = [],
                  meal_frequency = 3, snacking_preference = ''moderate''\<rparr>,
      lifestyle = \<lparr>activity_level = ''sedentary'', exercise_routine = ''none'', sleep_hours = 7,
                    stress_level = ''low''\<rparr>,
      nutrition = \<lparr>daily_calories = None, NutritionalRequirements.protein_g = None,
                    NutritionalRequirements.carbs_g = None, NutritionalRequirements.fats_g = None,
                    salt_limit_g = None, sugar_limit_g = None, water_liters = None\<rparr>,
      special = \<lparr>low_gi = False, low_sodium = False, high_fiber = False, renal = False,
                  high_protein = False, anti_inflammatory = False, weight_gain = False,
                  weight_loss = False, gluten_free = False, lactose_free = False\<rparr>\<rparr>"

definition with_conditions :: "string list \<Rightarrow> UserProfile \<Rightarrow> UserProfile" where
  "with_conditions cs p = p\<lparr>medical := (medical p)\<lparr>conditions := cs\<rparr>\<rparr>"

definition type2_profile :: UserProfile where
  "type2_profile = with_conditions [''Type 2 Diabetes''] scenario_profile"

definition diabetes_profile :: UserProfile where
  "diabetes_profile = with_conditions [''Diabetes'', ''thyroid''] scenario_profile"

text \<open>The profile after \<^verbatim>\<open>profile.medical.allergies.append(a)\<close>.\<close>

definition add_allergy :: "string \<Rightarrow> UserProfile \<Rightarrow> UserProfile" where
  "add_allergy a p = p\<lparr>medical := (medical p)\<lparr>allergies := allergies (medical p) @ [a]\<rparr>\<rparr>"

definition oats :: FoodItem where
  "oats = \<lparr>FoodItem.name = ''Oats porridge (water)'', calories = 180, protein_g = 6, carbs_g = 30,
            fat_g = 3, fiber_g = 5, sodium_mg = 120, gi = ''low'',
            tags = [''low_gi'', ''high_fiber'', ''whole_grain''], diet_types = [''veg'', ''vegan''],
            meal_types = [''breakfast''], cuisines = [''global''], allergens = [''gluten'']\<rparr>"

definition paneer :: FoodItem where
  "paneer = \<lparr>FoodItem.name = ''Paneer tikka'', calories = 260, protein_g = 18, carbs_g = 8,
              fat_g = 17, fiber_g = 1, sodium_mg = 380, gi = ''medium'',
              tags = [''lean_protein''], diet_types = [''veg''],
              meal_types = [''lunch'', ''dinner''], cuisines = [''indian''], allergens = [''lactose'']\<rparr>"

definition lentil_soup :: FoodItem where
  "lentil_soup = \<lparr>FoodItem.name = ''Lentil soup'', calories = 220, protein_g = 14, carbs_g = 32,
              fat_g = 4, fiber_g = 9, sodium_mg = 300, gi = ''low'',
              tags = [''high_fiber'', ''plant_protein''], diet_types = [''veg'', ''vegan''],
              meal_types = [''lunch'', ''dinner''], cuisines = [''mediterranean''], allergens = []\<rparr>"

definition example_catalog :: "FoodItem list" where
  "example_catalog = [oats, paneer, lentil_soup]"

definition example_constraints :: ConstraintSpec where
  "example_constraints =
     (fst (build_constraints diabetes_profile))\<lparr>required_tags := {''low_gi'', ''high_fiber'', ''lean_protein''}\<rparr>"

definition vegan_profile :: UserProfile where
  "vegan_profile = scenario_profile\<lparr>dietary := (dietary scenario_profile)\<lparr>diet_type := ''vegan''\<rparr>\<rparr>"

definition example_day_plan :: DayPlan where
  "example_day_plan =
     \<lparr>meals = [(''breakfast'', [to_item oats]),
               (''lunch'', [to_item paneer, to_item lentil_soup]),
               (''dinner'', []),
               (''snacks'', [])],
      totals = day_totals [(''breakfast'', [to_item oats]),
                           (''lunch'', [to_item paneer, to_item lentil_soup])],
      meal_split = DEFAULT_MEAL_SPLIT\<rparr>"

text \<open>\<open>items_from S ms\<close>: every item of every meal slot is the image of a food in \<open>S\<close>.\<close>

definition items_from :: "FoodItem set \<Rightarrow> (string \<times> MealItem list) list \<Rightarrow> bool" where
  "items_from S ms = (\<forall>(m, items)\<in>set ms. set items \<subseteq> to_item ` S)"

text \<open>
  The lentil soup with its GI attribute written in capitals, and the constraints of the
  scenario profile with the low-GI toggle, which require \<^verbatim>\<open>low_gi\<close> alone.
\<close>

definition upper_gi_food :: FoodItem where
  "upper_gi_food = lentil_soup\<lparr>gi := ''LOW''\<rparr>"

definition low_gi_only :: ConstraintSpec where
  "low_gi_only = fst (build_constraints (scenario_profile\<lparr>special := (special scenario_profile)\<lparr>low_gi := True\<rparr>\<rparr>))"



text \<open>
  The scenario profile with the flags \<^verbatim>\<open>high_protein\<close> and \<^verbatim>\<open>weight_loss\<close> set: its
  percentages are 0.3, 0.4 and \<^verbatim>\<open>1.0 - 0.3 - 0.4\<close>.
\<close>

definition protein_loss_profile :: UserProfile where
  "protein_loss_profile =
     scenario_profile\<lparr>special := (special scenario_profile)\<lparr>high_protein := True, weight_loss := True\<rparr>\<rparr>"

section \<open>Constraint derivation: proofs\<close>

text \<open>Membership in the three tag sets after each rule, in terms of the sets before it.\<close>

lemma rule_diabetes_mem:
  "x \<in> required (rule_diabetes conds s) \<longleftrightarrow>
     x \<in> required s \<or> (x = ''low_gi'' \<and> ''diabetes'' \<in> conds)"
  "x \<in> prefer_s (rule_diabetes conds s) \<longleftrightarrow>
     x \<in> prefer_s s \<or> (x = ''high_fiber'' \<and> ''diabetes'' \<in> conds)"
  "x \<in> avoid (rule_diabetes conds s) \<longleftrightarrow>
     x \<in> avoid s \<or> (x \<in> {''high_gi'', ''refined_sugar'', ''refined_carbs''} \<and> ''diabetes'' \<in> conds)"
  by (auto simp add: rule_diabetes_def)

lemma rule_hypertension_mem:
  "x \<in> required (rule_hypertension conds p s) \<longleftrightarrow> x \<in> required s"
  "x \<in> prefer_s (rule_hypertension conds p s) \<longleftrightarrow>
     x \<in> prefer_s s \<or> (x = ''low_sodium'' \<and> (''hypertension'' \<in> conds \<or> low_sodium (special p)))"
  "x \<in> avoid (rule_hypertension conds p s) \<longleftrightarrow>
     x \<in> avoid s \<or> (x = ''high_sodium'' \<and> (''hypertension'' \<in> conds \<or> low_sodium (special p)))"
  by (auto simp add: rule_hypertension_def)

lemma rule_heart_mem:
  "x \<in> required (rule_heart conds p s) \<longleftrightarrow> x \<in> required s"
  "x \<in> prefer_s (rule_heart conds p s) \<longleftrightarrow>
     x \<in> prefer_s s \<or> (x \<in> {''omega3'', ''anti_inflammatory'', ''low_saturated_fat''} \<and>
                        (''heart disease'' \<in> conds \<or> high_cholesterol p))"
  "x \<in> avoid (rule_heart conds p s) \<longleftrightarrow>
     x \<in> avoid s \<or> (x \<in> {''high_saturated_fat'', ''fried'', ''processed''} \<and>
                     (''heart disease'' \<in> conds \<or> high_cholesterol p))"
  by (auto simp add: rule_heart_def)

lemma rule_kidney_mem:
  "x \<in> required (rule_kidney conds p s) \<longleftrightarrow> x \<in> required s"
  "x \<in> prefer_s (rule_kidney conds p s) \<longleftrightarrow>
     x \<in> prefer_s s \<or> (x \<in> {''low_potassium'', ''low_phosphorus''} \<and>
                        (''kidney disease'' \<in> conds \<or> renal (special p)))"
  "x \<in> avoid (rule_kidney conds p s) \<longleftrightarrow>
     x \<in> avoid s \<or> (x \<in> {''high_potassium'', ''high_phosphorus''} \<and>
                     (''kidney disease'' \<in> conds \<or> renal (special p)))"
  by (auto simp add: rule_kidney_def)

lemma rule_pcos_mem:
  "x \<in> required (rule_pcos conds s) \<longleftrightarrow>
     x \<in> required s \<or> (x = ''low_gi'' \<and> (''pcod'' \<in> conds \<or> ''pcos'' \<in> conds))"
  "x \<in> prefer_s (rule_pcos conds s) \<longleftrightarrow>
     x \<in> prefer_s s \<or> (x \<in> {''anti_inflammatory'', ''high_fiber'', ''lean_protein''} \<and>
                        (''pcod'' \<in> conds \<or> ''pcos'' \<in> conds))"
  "x \<in> avoid (rule_pcos conds s) \<longleftrightarrow>
     x \<in> avoid s \<or> (x \<in> {''refined_sugar'', ''refined_carbs'', ''fried''} \<and>
                     (''pcod'' \<in> conds \<or> ''pcos'' \<in> conds))"
  by (auto simp add: rule_pcos_def)

lemma rule_gastric_mem:
  "x \<in> required (rule_gastric conds s) \<longleftrightarrow> x \<in> required s"
  "x \<in> prefer_s (rule_gastric conds s) \<longleftrightarrow>
     x \<in> prefer_s s \<or> (x = ''high_fiber'' \<and> (''gastric'' \<in> conds \<or> ''gastric issues'' \<in> conds))"
  "x \<in> avoid (rule_gastric conds s) \<longleftrightarrow>
     x \<in> avoid s \<or> (x \<in> {''spicy'', ''fried''} \<and> (''gastric'' \<in> conds \<or> ''gastric issues'' \<in> conds))"
  by (auto simp add: rule_gastric_def)

lemma rule_thyroid_mem:
  "x \<in> required (rule_thyroid conds s) \<longleftrightarrow> x \<in> required s"
  "x \<in> prefer_s (rule_thyroid conds s) \<longleftrightarrow> x \<in> prefer_s s"
  "x \<in> avoid (rule_thyroid conds s) \<longleftrightarrow> x \<in> avoid s"
  by (auto simp add: rule_thyroid_def)

lemma toggle_low_gi_mem:
  "x \<in> required (toggle_low_gi p s) \<longleftrightarrow> x \<in> required s \<or> (x = ''low_gi'' \<and> low_gi (special p))"
  "x \<in> prefer_s (toggle_low_gi p s) \<longleftrightarrow> x \<in> prefer_s s"
  "x \<in> avoid (toggle_low_gi p s) \<longleftrightarrow> x \<in> avoid s"
  by (auto simp add: toggle_low_gi_def)

lemma toggle_high_fiber_mem:
  "x \<in> required (toggle_high_fiber p s) \<longleftrightarrow> x \<in> required s"
  "x \<in> prefer_s (toggle_high_fiber p s) \<longleftrightarrow>
     x \<in> prefer_s s \<or> (x = ''high_fiber'' \<and> high_fiber (special p))"
  "x \<in> avoid (toggle_high_fiber p s) \<longleftrightarrow> x \<in> avoid s"
  by (auto simp add: toggle_high_fiber_def)

lemma toggle_high_protein_mem:
  "x \<in> required (toggle_high_protein p s) \<longleftrightarrow> x \<in> required s"
  "x \<in> prefer_s (toggle_high_protein p s) \<longleftrightarrow>
     x \<in> prefer_s s \<or> (x = ''lean_protein'' \<and> high_protein (special p))"
  "x \<in> avoid (toggle_high_protein p s) \<longleftrightarrow> x \<in> avoid s"
  by (auto simp add: toggle_high_protein_def)

lemma toggle_anti_inflammatory_mem:
  "x \<in> required (toggle_anti_inflammatory p s) \<longleftrightarrow> x \<in> required s"
  "x \<in> prefer_s (toggle_anti_inflammatory p s) \<longleftrightarrow>
     x \<in> prefer_s s \<or> (x = ''anti_inflammatory'' \<and> anti_inflammatory (special p))"
  "x \<in> avoid (toggle_anti_inflammatory p s) \<longleftrightarrow> x \<in> avoid s"
  by (auto simp add: toggle_anti_inflammatory_def)

lemma toggle_gluten_free_mem:
  "x \<in> required (toggle_gluten_free p s) \<longleftrightarrow> x \<in> required s"
  "x \<in> prefer_s (toggle_gluten_free p s) \<longleftrightarrow> x \<in> prefer_s s"
  "x \<in> avoid (toggle_gluten_free p s) \<longleftrightarrow> x \<in> avoid s"
  by (auto simp add: toggle_gluten_free_def)

lemma toggle_lactose_free_mem:
  "x \<in> required (toggle_lactose_free p s) \<longleftrightarrow> x \<in> required s"
  "x \<in> prefer_s (toggle_lactose_free p s) \<longleftrightarrow> x \<in> prefer_s s"
  "x \<in> avoid (toggle_lactose_free p s) \<longleftrightarrow> x \<in> avoid s"
  by (auto simp add: toggle_lactose_free_def)

lemmas rules_mem = rule_diabetes_mem rule_hypertension_mem rule_heart_mem rule_kidney_mem
  rule_pcos_mem rule_gastric_mem rule_thyroid_mem toggle_low_gi_mem toggle_high_fiber_mem
  toggle_high_protein_mem toggle_anti_inflammatory_mem toggle_gluten_free_mem
  toggle_lactose_free_mem

text \<open>The four tags of the diabetes rule in the sets that \<^verbatim>\<open>build_constraints\<close> returns.\<close>

lemma low_gi_required_iff:
  "''low_gi'' \<in> required (bc_rules p (bc_init p)) \<longleftrightarrow>
     ''diabetes'' \<in> lower ` set (conditions (medical p)) \<or>
     ''pcod'' \<in> lower ` set (conditions (medical p)) \<or>
     ''pcos'' \<in> lower ` set (conditions (medical p)) \<or> low_gi (special p)"
  unfolding bc_rules_def Let_def
  by (simp only: rules_mem) (auto simp add: bc_init_def)

lemma high_fiber_preferred_iff:
  "''high_fiber'' \<in> prefer_s (bc_rules p (bc_init p)) \<longleftrightarrow>
     ''diabetes'' \<in> lower ` set (conditions (medical p)) \<or>
     ''pcod'' \<in> lower ` set (conditions (medical p)) \<or>
     ''pcos'' \<in> lower ` set (conditions (medical p)) \<or>
     ''gastric'' \<in> lower ` set (conditions (medical p)) \<or>
     ''gastric issues'' \<in> lower ` set (conditions (medical p)) \<or> high_fiber (special p)"
  unfolding bc_rules_def Let_def
  by (simp only: rules_mem) (auto simp add: bc_init_def)

lemma high_gi_avoided_iff:
  "''high_gi'' \<in> avoid (bc_rules p (bc_init p)) \<longleftrightarrow>
     ''diabetes'' \<in> lower ` set (conditions (medical p))"
  unfolding bc_rules_def Let_def
  by (simp only: rules_mem) (auto simp add: bc_init_def)

lemma refined_always_avoided:
  "''refined_sugar'' \<in> avoid (bc_rules p (bc_init p))"
  "''refined_carbs'' \<in> avoid (bc_rules p (bc_init p))"
  unfolding bc_rules_def Let_def
  by (simp_all only: rules_mem) (auto simp add: bc_init_def)

text \<open>
  Claim C1, as the code has it. The condition names are lowercased and collected into a
  set, and the diabetes rule fires on membership of \<^verbatim>\<open>"diabetes"\<close> in that set, not on a
  substring. For every profile with a condition that is \<^verbatim>\<open>diabetes\<close> up to letter case,
  \<^verbatim>\<open>low_gi\<close> is required, \<^verbatim>\<open>high_fiber\<close> is preferred, and \<^verbatim>\<open>high_gi\<close>, \<^verbatim>\<open>refined_sugar\<close>
  and \<^verbatim>\<open>refined_carbs\<close> are avoided. Conversely, \<^verbatim>\<open>high_gi\<close> is avoided only for such a
  profile; \<^verbatim>\<open>low_gi\<close> is required only for such a profile, one with the condition
  \<^verbatim>\<open>pcod\<close> or \<^verbatim>\<open>pcos\<close>, or one with the low-GI toggle; and \<^verbatim>\<open>high_fiber\<close> is preferred
  only for such a profile, one with \<^verbatim>\<open>pcod\<close>, \<^verbatim>\<open>pcos\<close>, \<^verbatim>\<open>gastric\<close> or
  \<^verbatim>\<open>gastric issues\<close>, or one with the high-fiber toggle. So a condition that only
  contains the word \<^verbatim>\<open>diabetes\<close> triggers nothing.
\<close>

theorem diabetes_exact_match:
  "(''diabetes'' \<in> lower ` set (conditions (medical profile)) \<longrightarrow>
      ''low_gi'' \<in> required_tags (fst (build_constraints profile)) \<and>
      ''high_fiber'' \<in> prefer_tags (fst (build_constraints profile)) \<and>
      {''high_gi'', ''refined_sugar'', ''refined_carbs''} \<subseteq> avoid_tags (fst (build_constraints profile))) \<and>
   (''high_gi'' \<in> avoid_tags (fst (build_constraints profile)) \<longleftrightarrow>
      ''diabetes'' \<in> lower ` set (conditions (medical profile))) \<and>
   (''low_gi'' \<in> required_tags (fst (build_constraints profile)) \<longleftrightarrow>
      ''diabetes'' \<in> lower ` set (conditions (medical profile)) \<or>
      ''pcod'' \<in> lower ` set (conditions (medical profile)) \<or>
      ''pcos'' \<in> lower ` set (conditions (medical profile)) \<or> low_gi (special profile)) \<and>
   (''high_fiber'' \<in> prefer_tags (fst (build_constraints profile)) \<longleftrightarrow>
      ''diabetes'' \<in> lower ` set (conditions (medical profile)) \<or>
      ''pcod'' \<in> lower ` set (conditions (medical profile)) \<or>
      ''pcos'' \<in> lower ` set (conditions (medical profile)) \<or>
      ''gastric'' \<in> lower ` set (conditions (medical profile)) \<or>
      ''gastric issues'' \<in> lower ` set (conditions (medical profile)) \<or> high_fiber (special profile))"
proof -
  have c: "required_tags (fst (build_constraints profile)) = required (bc_rules profile (bc_init profile))"
    "prefer_tags (fst (build_constraints profile)) = prefer_s (bc_rules profile (bc_init profile))"
    "avoid_tags (fst (build_constraints profile)) = avoid (bc_rules profile (bc_init profile))"
    by (simp_all add: build_constraints_def Let_def)
  show ?thesis
    unfolding c
    by (simp add: low_gi_required_iff high_fiber_preferred_iff high_gi_avoided_iff
        refined_always_avoided)
qed

text \<open>
  The theorem at a profile whose first condition is written \<^verbatim>\<open>Diabetes\<close>, and at the
  profile with the single condition \<^verbatim>\<open>Type 2 Diabetes\<close>.
\<close>

theorem diabetes_exact_match_witness:
  "''diabetes'' \<in> lower ` set (conditions (medical diabetes_profile)) \<and>
   ''low_gi'' \<in> required_tags (fst (build_constraints diabetes_profile)) \<and>
   ''high_fiber'' \<in> prefer_tags (fst (build_constraints diabetes_profile)) \<and>
   {''high_gi'', ''refined_sugar'', ''refined_carbs''} \<subseteq> avoid_tags (fst (build_constraints diabetes_profile)) \<and>
   ''diabetes'' \<notin> lower ` set (conditions (medical type2_profile)) \<and>
   ''high_gi'' \<notin> avoid_tags (fst (build_constraints type2_profile))"
proof -
  have h: "''diabetes'' \<in> lower ` set (conditions (medical diabetes_profile))"
    by code_simp
  have n: "''diabetes'' \<notin> lower ` set (conditions (medical type2_profile))"
    by code_simp
  note a = diabetes_exact_match[of diabetes_profile, THEN conjunct1, THEN mp, OF h]
  have b: "''high_gi'' \<notin> avoid_tags (fst (build_constraints type2_profile))"
    using n diabetes_exact_match[of type2_profile, THEN conjunct2, THEN conjunct1]
    by simp
  from h a n b show ?thesis
    by (intro conjI) (elim conjE, assumption)+
qed

text \<open>
  A condition that only contains the word does not fire the rule: with the single
  condition \<^verbatim>\<open>Type 2 Diabetes\<close> nothing is required and \<^verbatim>\<open>high_gi\<close> is not avoided.
\<close>

theorem diabetes_substring_counterexample:
  "conditions (medical type2_profile) = [''Type 2 Diabetes''] \<and>
   is_substring ''diabetes'' (lower ''Type 2 Diabetes'') \<and>
   ''low_gi'' \<notin> required_tags (fst (build_constraints type2_profile)) \<and>
   ''high_fiber'' \<notin> prefer_tags (fst (build_constraints type2_profile)) \<and>
   ''high_gi'' \<notin> avoid_tags (fst (build_constraints type2_profile))"
  by code_simp

section \<open>Filtering: proofs\<close>

text \<open>
  Claim C2, as the code has it. When \<^verbatim>\<open>constraints.required_tags\<close> is not empty, a food
  is allowed if and only if it passes the other checks of \<^verbatim>\<open>allowed\<close> (those are the
  checks that remain when the required set is emptied) and passes the required-tags check:
  if \<^verbatim>\<open>low_gi\<close> is required, the GI attribute of the food in lower case is \<^verbatim>\<open>low\<close>
  (the source compares \<^verbatim>\<open>food.gi.lower()\<close>, so \<^verbatim>\<open>LOW\<close> passes too) or \<^verbatim>\<open>low_gi\<close> is
  among its tags; and if other tags are required as well, the food carries at least one
  of them.
\<close>

theorem required_tags_check:
  assumes "required_tags constraints \<noteq> {}"
  shows "allowed profile constraints food \<longleftrightarrow>
           allowed profile (constraints\<lparr>required_tags := {}\<rparr>) food \<and>
           (''low_gi'' \<in> required_tags constraints \<longrightarrow>
              lower (gi food) = ''low'' \<or> ''low_gi'' \<in> set (tags food)) \<and>
           (required_tags constraints - {''low_gi''} \<noteq> {} \<longrightarrow>
              (\<exists>tag\<in>set (tags food). tag \<in> required_tags constraints - {''low_gi''}))"
  using assms unfolding allowed_def Let_def by auto


text \<open>
  With \<^verbatim>\<open>low_gi\<close>, \<^verbatim>\<open>high_fiber\<close> and \<^verbatim>\<open>lean_protein\<close> required, the oats pass on
  \<^verbatim>\<open>high_fiber\<close> alone, and the paneer, of medium GI, fails.
\<close>

theorem required_tags_check_witness:
  "allowed diabetes_profile example_constraints oats \<and>
   \<not> allowed diabetes_profile example_constraints paneer"
proof -
  have h: "required_tags example_constraints \<noteq> {}"
    by code_simp
  have yes: "allowed diabetes_profile (example_constraints\<lparr>required_tags := {}\<rparr>) oats \<and>
      (''low_gi'' \<in> required_tags example_constraints \<longrightarrow>
         lower (gi oats) = ''low'' \<or> ''low_gi'' \<in> set (tags oats)) \<and>
      (required_tags example_constraints - {''low_gi''} \<noteq> {} \<longrightarrow>
         (\<exists>tag\<in>set (tags oats). tag \<in> required_tags example_constraints - {''low_gi''}))"
    by code_simp
  have no: "''low_gi'' \<in> required_tags example_constraints"
    "\<not> (lower (gi paneer) = ''low'' \<or> ''low_gi'' \<in> set (tags paneer))"
    by code_simp+
  from yes no show ?thesis
    using required_tags_check[OF h, of diabetes_profile oats]
      required_tags_check[OF h, of diabetes_profile paneer]
    by blast
qed

text \<open>
  The check does not compare the GI attribute as it is written: a food whose attribute is
  \<^verbatim>\<open>LOW\<close> and that has no \<^verbatim>\<open>low_gi\<close> tag is allowed when \<^verbatim>\<open>low_gi\<close> is required.
\<close>

theorem required_tags_gi_case_counterexample:
  "required_tags low_gi_only = {''low_gi''} \<and>
   allowed scenario_profile low_gi_only upper_gi_food \<and>
   gi upper_gi_food \<noteq> ''low'' \<and>
   ''low_gi'' \<notin> set (tags upper_gi_food)"
  by code_simp

text \<open>
  Adding an allergy to the profile adds its lowercased name to the excluded allergens and
  changes nothing else in the constraints.
\<close>

lemma rules_commute_allergens:
  "rule_diabetes c (s\<lparr>bc_locals.allergens := A\<rparr>) = (rule_diabetes c s)\<lparr>bc_locals.allergens := A\<rparr>"
  "rule_hypertension c p (s\<lparr>bc_locals.allergens := A\<rparr>) = (rule_hypertension c p s)\<lparr>bc_locals.allergens := A\<rparr>"
  "rule_heart c p (s\<lparr>bc_locals.allergens := A\<rparr>) = (rule_heart c p s)\<lparr>bc_locals.allergens := A\<rparr>"
  "rule_kidney c p (s\<lparr>bc_locals.allergens := A\<rparr>) = (rule_kidney c p s)\<lparr>bc_locals.allergens := A\<rparr>"
  "rule_pcos c (s\<lparr>bc_locals.allergens := A\<rparr>) = (rule_pcos c s)\<lparr>bc_locals.allergens := A\<rparr>"
  "rule_gastric c (s\<lparr>bc_locals.allergens := A\<rparr>) = (rule_gastric c s)\<lparr>bc_locals.allergens := A\<rparr>"
  "rule_thyroid c (s\<lparr>bc_locals.allergens := A\<rparr>) = (rule_thyroid c s)\<lparr>bc_locals.allergens := A\<rparr>"
  "toggle_low_gi p (s\<lparr>bc_locals.allergens := A\<rparr>) = (toggle_low_gi p s)\<lparr>bc_locals.allergens := A\<rparr>"
  "toggle_high_fiber p (s\<lparr>bc_locals.allergens := A\<rparr>) = (toggle_high_fiber p s)\<lparr>bc_locals.allergens := A\<rparr>"
  "toggle_high_protein p (s\<lparr>bc_locals.allergens := A\<rparr>) = (toggle_high_protein p s)\<lparr>bc_locals.allergens := A\<rparr>"
  "toggle_anti_inflammatory p (s\<lparr>bc_locals.allergens := A\<rparr>) = (toggle_anti_inflammatory p s)\<lparr>bc_locals.allergens := A\<rparr>"
  by (simp_all add: rule_diabetes_def rule_hypertension_def rule_heart_def rule_kidney_def
      rule_pcos_def rule_gastric_def rule_thyroid_def toggle_low_gi_def toggle_high_fiber_def
      toggle_high_protein_def toggle_anti_inflammatory_def)

lemma rules_allergens:
  "bc_locals.allergens (rule_diabetes c s) = bc_locals.allergens s"
  "bc_locals.allergens (rule_hypertension c p s) = bc_locals.allergens s"
  "bc_locals.allergens (rule_heart c p s) = bc_locals.allergens s"
  "bc_locals.allergens (rule_kidney c p s) = bc_locals.allergens s"
  "bc_locals.allergens (rule_pcos c s) = bc_locals.allergens s"
  "bc_locals.allergens (rule_gastric c s) = bc_locals.allergens s"
  "bc_locals.allergens (rule_thyroid c s) = bc_locals.allergens s"
  "bc_locals.allergens (toggle_low_gi p s) = bc_locals.allergens s"
  "bc_locals.allergens (toggle_high_fiber p s) = bc_locals.allergens s"
  "bc_locals.allergens (toggle_high_protein p s) = bc_locals.allergens s"
  "bc_locals.allergens (toggle_anti_inflammatory p s) = bc_locals.allergens s"
  by (simp_all add: rule_diabetes_def rule_hypertension_def rule_heart_def rule_kidney_def
      rule_pcos_def rule_gastric_def rule_thyroid_def toggle_low_gi_def toggle_high_fiber_def
      toggle_high_protein_def toggle_anti_inflammatory_def)

lemma toggles_insert_allergen:
  "toggle_gluten_free p (s\<lparr>bc_locals.allergens := insert x (bc_locals.allergens s)\<rparr>) =
     (toggle_gluten_free p s)\<lparr>bc_locals.allergens := insert x (bc_locals.allergens (toggle_gluten_free p s))\<rparr>"
  "toggle_lactose_free p (s\<lparr>bc_locals.allergens := insert x (bc_locals.allergens s)\<rparr>) =
     (toggle_lactose_free p s)\<lparr>bc_locals.allergens := insert x (bc_locals.allergens (toggle_lactose_free p s))\<rparr>"
  by (simp_all add: toggle_gluten_free_def toggle_lactose_free_def insert_commute)

lemma rules_add_allergy:
  "toggle_low_gi (add_allergy a p) = toggle_low_gi p"
  "toggle_high_fiber (add_allergy a p) = toggle_high_fiber p"
  "toggle_high_protein (add_allergy a p) = toggle_high_protein p"
  "toggle_anti_inflammatory (add_allergy a p) = toggle_anti_inflammatory p"
  "toggle_gluten_free (add_allergy a p) = toggle_gluten_free p"
  "toggle_lactose_free (add_allergy a p) = toggle_lactose_free p"
  "rule_hypertension c (add_allergy a p) = rule_hypertension c p"
  "rule_kidney c (add_allergy a p) = rule_kidney c p"
  "rule_heart c (add_allergy a p) = rule_heart c p"
  by (simp_all add: fun_eq_iff add_allergy_def toggle_low_gi_def toggle_high_fiber_def
      toggle_high_protein_def toggle_anti_inflammatory_def toggle_gluten_free_def
      toggle_lactose_free_def rule_hypertension_def rule_kidney_def rule_heart_def
      high_cholesterol_def)

lemma bc_rules_insert_allergen:
  "bc_rules p (s\<lparr>bc_locals.allergens := insert x (bc_locals.allergens s)\<rparr>) =
     (bc_rules p s)\<lparr>bc_locals.allergens := insert x (bc_locals.allergens (bc_rules p s))\<rparr>"
proof -
  define F where "F = (\<lambda>s. toggle_anti_inflammatory p (toggle_high_protein p (toggle_high_fiber p
    (toggle_low_gi p (rule_thyroid (lower ` set (conditions (medical p)))
    (rule_gastric (lower ` set (conditions (medical p)))
    (rule_pcos (lower ` set (conditions (medical p)))
    (rule_kidney (lower ` set (conditions (medical p))) p
    (rule_heart (lower ` set (conditions (medical p))) p
    (rule_hypertension (lower ` set (conditions (medical p))) p
    (rule_diabetes (lower ` set (conditions (medical p))) s)))))))))))"
  have comm: "F (t\<lparr>bc_locals.allergens := A\<rparr>) = (F t)\<lparr>bc_locals.allergens := A\<rparr>" for t A
    unfolding F_def by (simp only: rules_commute_allergens)
  have same: "bc_locals.allergens (F t) = bc_locals.allergens t" for t
    unfolding F_def by (simp only: rules_allergens)
  have rules: "bc_rules p t = toggle_lactose_free p (toggle_gluten_free p (F t))" for t
    by (simp add: bc_rules_def Let_def F_def)
  have "F (s\<lparr>bc_locals.allergens := insert x (bc_locals.allergens s)\<rparr>) =
        (F s)\<lparr>bc_locals.allergens := insert x (bc_locals.allergens (F s))\<rparr>"
    by (simp only: comm same)
  then show ?thesis
    by (simp only: rules toggles_insert_allergen)
qed

lemma conditions_add_allergy:
  "conditions (medical (add_allergy a p)) = conditions (medical p)"
  by (simp add: add_allergy_def)

lemma bc_rules_add_allergy:
  "bc_rules (add_allergy a p) s = bc_rules p s"
  unfolding bc_rules_def Let_def
  by (simp only: rules_add_allergy conditions_add_allergy)

lemma bc_init_add_allergy:
  "bc_init (add_allergy a p) =
     (bc_init p)\<lparr>bc_locals.allergens := insert (lower a) (bc_locals.allergens (bc_init p))\<rparr>"
  by (simp add: bc_init_def add_allergy_def)

lemma build_constraints_add_allergy:
  "fst (build_constraints (add_allergy a p)) =
     (fst (build_constraints p))\<lparr>exclude_allergens := insert (lower a) (exclude_allergens (fst (build_constraints p)))\<rparr>"
  by (simp add: build_constraints_def Let_def bc_rules_add_allergy bc_init_add_allergy
      bc_rules_insert_allergen) (simp add: add_allergy_def)

lemma length_filter_mono:
  assumes "\<And>x. x \<in> set xs \<Longrightarrow> P x \<Longrightarrow> Q x"
  shows "length (filter P xs) \<le> length (filter Q xs)"
  using assms by (induction xs) auto

lemma allowed_add_allergy:
  assumes "allowed (add_allergy a p) (c\<lparr>exclude_allergens := insert x (exclude_allergens c)\<rparr>) f"
  shows "allowed p c f"
proof -
  have d: "dietary (add_allergy a p) = dietary p"
    by (simp add: add_allergy_def)
  show ?thesis
    using assms unfolding allowed_def Let_def d
    by (auto split: if_splits)
qed

lemma filter_foods_allowed:
  "f \<in> set (filter_foods foods profile constraints) \<Longrightarrow> f \<in> set foods \<and> allowed profile constraints f"
  by (simp add: filter_foods_def Let_def)

lemma allowed_diet_type:
  "allowed profile constraints f \<Longrightarrow> diet_type (dietary profile) \<in> set (diet_types f)"
  unfolding allowed_def Let_def by (simp split: if_splits)


text \<open>
  Claim C3. For every catalog, profile and allergen string, the list that \<^verbatim>\<open>filter_foods\<close>
  returns for the profile with the allergen added to \<^verbatim>\<open>profile.medical.allergies\<close>, under
  the constraints derived from that profile, is no longer than the list for the original
  profile.
\<close>

theorem filter_antitone_in_allergies:
  "length (filter_foods foods (add_allergy a profile) (fst (build_constraints (add_allergy a profile))))
     \<le> length (filter_foods foods profile (fst (build_constraints profile)))"
proof -
  have "length (filter (allowed (add_allergy a profile) (fst (build_constraints (add_allergy a profile)))) foods)
          \<le> length (filter (allowed profile (fst (build_constraints profile))) foods)"
    by (rule length_filter_mono) (simp only: build_constraints_add_allergy, erule allowed_add_allergy)
  then show ?thesis
    by (simp add: filter_foods_def Let_def)
qed


theorem filter_antitone_in_allergies_witness:
  "length (filter_foods example_catalog (add_allergy ''Gluten'' scenario_profile)
             (fst (build_constraints (add_allergy ''Gluten'' scenario_profile))))
     \<le> length (filter_foods example_catalog scenario_profile (fst (build_constraints scenario_profile)))"
  by (rule filter_antitone_in_allergies)

section \<open>Planner: proofs\<close>

lemma find_Some_holds:
  "List.find P xs = Some x \<Longrightarrow> P x \<and> x \<in> set xs"
  by (induction xs) (auto split: if_splits)

lemma find_None_all:
  "List.find P xs = None \<longleftrightarrow> (\<forall>x\<in>set xs. \<not> P x)"
  by (induction xs) auto

lemma to_item_fields:
  "name (to_item f) = FoodItem.name f"
  "calories (to_item f) = FoodItem.calories f"
  "sodium_mg (to_item f) = FoodItem.sodium_mg f"
  by (simp_all add: to_item_def)

text \<open>The three shapes of the result, with the facts that the two loops establish.\<close>

lemma pick_items_cases:
  fixes cands target_cal sodium_budget
  defines "picked \<equiv> pick_items_for_meal cands target_cal sodium_budget"
  shows "(picked = [] \<and> (\<forall>f\<in>set cands. \<not> FoodItem.sodium_mg f \<le> sodium_budget)) \<or>
         (\<exists>f1\<in>set cands. picked = [to_item f1] \<and> FoodItem.sodium_mg f1 \<le> sodium_budget) \<or>
         (\<exists>f1\<in>set cands. \<exists>f2\<in>set cands. picked = [to_item f1, to_item f2] \<and>
            FoodItem.sodium_mg f1 \<le> sodium_budget \<and>
            of_int (FoodItem.calories f1) < fmul (fl (6 / 10)) (float_of_int target_cal) \<and>
            FoodItem.calories f2 \<le> target_cal - FoodItem.calories f1 \<and>
            FoodItem.sodium_mg f2 \<le> sodium_budget - FoodItem.sodium_mg f1 \<and>
            FoodItem.name f2 \<noteq> FoodItem.name f1)"
proof (cases "cands = []")
  case True
  then show ?thesis by (simp add: picked_def pick_items_for_meal_def)
next
  case False
  let ?sorted = "sort_key (\<lambda>f. (cal_diff target_cal f, FoodItem.sodium_mg f)) cands"
  have s: "set ?sorted = set cands" by simp
  show ?thesis
  proof (cases "List.find (\<lambda>f. FoodItem.sodium_mg f \<le> sodium_budget) ?sorted")
    case None
    then have "\<forall>f\<in>set cands. \<not> FoodItem.sodium_mg f \<le> sodium_budget"
      unfolding find_None_all s .
    moreover from None False have "picked = []"
      by (simp add: picked_def pick_items_for_meal_def)
    ultimately show ?thesis by blast
  next
    case (Some f1)
    then have f1: "f1 \<in> set cands" "FoodItem.sodium_mg f1 \<le> sodium_budget"
      using find_Some_holds[OF Some] s by auto
    let ?P2 = "\<lambda>f. FoodItem.calories f \<le> target_cal - FoodItem.calories f1 \<and>
                   FoodItem.sodium_mg f \<le> sodium_budget - FoodItem.sodium_mg f1 \<and>
                   FoodItem.name f \<noteq> FoodItem.name f1"
    show ?thesis
    proof (cases "of_int (FoodItem.calories f1) < fmul (fl (6 / 10)) (float_of_int target_cal)")
      case below: True
      show ?thesis
      proof (cases "List.find ?P2 ?sorted")
        case None
        with Some False below have "picked = [to_item f1]"
          by (simp add: picked_def pick_items_for_meal_def Let_def to_item_fields)
        with f1 show ?thesis by blast
      next
        case (Some f2)
        then have f2: "f2 \<in> set cands" "?P2 f2"
          using find_Some_holds[OF Some] s by auto
        from Some \<open>List.find _ ?sorted = Some f1\<close> False below
        have "picked = [to_item f1, to_item f2]"
          by (simp add: picked_def pick_items_for_meal_def Let_def to_item_fields)
        with f1 f2 below show ?thesis by blast
      qed
    next
      case False
      with Some \<open>cands \<noteq> []\<close> have "picked = [to_item f1]"
        by (simp add: picked_def pick_items_for_meal_def Let_def to_item_fields)
      with f1 show ?thesis by blast
    qed
  qed
qed

text \<open>
  Claim C4. For every candidate list, every target and every sodium budget that is not
  negative, \<^verbatim>\<open>_pick_items_for_meal\<close> returns at most two items, whose sodium adds up to no
  more than the budget; the result is empty exactly when no candidate fits the budget
  (which includes the empty candidate list); and when there is a second item, the first
  passed the test \<^verbatim>\<open>current_cal < 0.6 * target_cal\<close> of the source, the second has another
  name, its calories fit into the target less the calories of the first, and its sodium
  fits into the budget less the sodium of the first.
\<close>

theorem pick_items_for_meal_spec:
  assumes "0 \<le> sodium_budget"
  shows "let picked = pick_items_for_meal cands target_cal sodium_budget in
           length picked \<le> 2 \<and>
           sum_list (map sodium_mg picked) \<le> sodium_budget \<and>
           (picked = [] \<longleftrightarrow> (\<forall>f\<in>set cands. \<not> FoodItem.sodium_mg f \<le> sodium_budget)) \<and>
           (length picked = 2 \<longrightarrow>
              (\<exists>f1\<in>set cands. \<exists>f2\<in>set cands. picked = [to_item f1, to_item f2] \<and>
                 of_int (FoodItem.calories f1) < fmul (fl (6 / 10)) (float_of_int target_cal) \<and>
                 FoodItem.name f2 \<noteq> FoodItem.name f1 \<and>
                 FoodItem.calories f2 \<le> target_cal - FoodItem.calories f1 \<and>
                 FoodItem.sodium_mg f2 \<le> sodium_budget - FoodItem.sodium_mg f1))"
  using pick_items_cases[of cands target_cal sodium_budget] assms
  unfolding Let_def
  by (elim disjE bexE conjE) (auto simp add: to_item_fields)

text \<open>
  With a target of 700 kcal and a budget of 1000 mg the paneer (260 kcal, below 60 percent
  of the target) is picked first and the lentil soup is added.
\<close>

theorem pick_items_for_meal_spec_witness:
  "pick_items_for_meal example_catalog 700 1000 = [to_item paneer, to_item lentil_soup] \<and>
   sum_list (map sodium_mg (pick_items_for_meal example_catalog 700 1000)) \<le> 1000 \<and>
   (\<exists>f1\<in>set example_catalog. \<exists>f2\<in>set example_catalog.
      pick_items_for_meal example_catalog 700 1000 = [to_item f1, to_item f2] \<and>
      of_int (FoodItem.calories f1) < fmul (fl (6 / 10)) (float_of_int 700) \<and>
      FoodItem.name f2 \<noteq> FoodItem.name f1 \<and>
      FoodItem.calories f2 \<le> 700 - FoodItem.calories f1 \<and>
      FoodItem.sodium_mg f2 \<le> 1000 - FoodItem.sodium_mg f1)"
proof -
  have h: "(0::int) \<le> 1000"
    by simp
  have v: "pick_items_for_meal example_catalog 700 1000 = [to_item paneer, to_item lentil_soup]"
    by code_simp
  then have l: "length (pick_items_for_meal example_catalog 700 1000) = 2"
    by simp
  from pick_items_for_meal_spec[OF h, of example_catalog 700] l v show ?thesis
    unfolding Let_def by blast
qed

lemma pick_items_subset:
  "set (pick_items_for_meal cands target_cal sodium_budget) \<subseteq> to_item ` set cands"
  using pick_items_cases[of cands target_cal sodium_budget] by auto

lemma update_fresh:
  "k \<notin> fst ` set al \<Longrightarrow> AList.update k v al = al @ [(k, v)]"
  by (induction al) auto

lemma foldl_update_fresh:
  assumes "distinct (map fst xs)" "fst ` set acc \<inter> fst ` set xs = {}"
  shows "foldl (\<lambda>a (k, x). AList.update k (g x) a) acc xs = acc @ map (\<lambda>(k, x). (k, g x)) xs"
  using assms
proof (induction xs arbitrary: acc)
  case Nil
  then show ?case by simp
next
  case (Cons p xs)
  obtain k x where p: "p = (k, x)" by (cases p)
  from Cons.prems p have fresh: "k \<notin> fst ` set acc" by auto
  have "fst ` set (acc @ [(k, g x)]) \<inter> fst ` set xs = {}"
    using Cons.prems p by auto
  with Cons.IH[of "acc @ [(k, g x)]"] Cons.prems p
  have "foldl (\<lambda>a (k, x). AList.update k (g x) a) (acc @ [(k, g x)]) xs =
          (acc @ [(k, g x)]) @ map (\<lambda>(k, x). (k, g x)) xs"
    by simp
  then show ?case
    by (simp add: p update_fresh[OF fresh])
qed

lemma day_meals_of_map:
  assumes "distinct (map fst ms)"
  shows "day_meals_of idx ms =
           map (\<lambda>(meal, items). (meal, if items = [] then [] else [items ! (idx mod length items)])) ms"
proof -
  have "day_meals_of idx ms =
          foldl (\<lambda>a (k, x). AList.update k (if x = [] then [] else [x ! (idx mod length x)]) a) [] ms"
    unfolding day_meals_of_def Let_def
    by (rule arg_cong[where f = "\<lambda>f. foldl f [] ms"]) (auto simp add: fun_eq_iff)
  also have "\<dots> = [] @ map (\<lambda>(k, x). (k, if x = [] then [] else [x ! (idx mod length x)])) ms"
    by (rule foldl_update_fresh) (use assms in simp_all)
  finally show ?thesis by simp
qed

lemma generate_weekly_plan_days:
  "generate_weekly_plan day_plan =
     [(''Mon'', day_meals_of 0 (meals day_plan)), (''Tue'', day_meals_of 1 (meals day_plan)),
      (''Wed'', day_meals_of 2 (meals day_plan)), (''Thu'', day_meals_of 3 (meals day_plan)),
      (''Fri'', day_meals_of 4 (meals day_plan)), (''Sat'', day_meals_of 5 (meals day_plan)),
      (''Sun'', day_meals_of 6 (meals day_plan))]"
  by (simp add: generate_weekly_plan_def week_days_def enumerate_eq_zip upt_rec eval_nat_numeral)

lemma less_7_cases:
  "i < 7 \<Longrightarrow> i = 0 \<or> i = 1 \<or> i = 2 \<or> i = 3 \<or> i = 4 \<or> i = 5 \<or> i = (6::nat)"
  by arith

lemma map_of_map_value:
  "map_of (map (\<lambda>(k, v). (k, g v)) xs) k = map_option g (map_of xs k)"
  by (induction xs) auto

text \<open>
  Claim C8. For every day plan (a dict, so the meal names are distinct),
  \<^verbatim>\<open>generate_weekly_plan\<close> returns the seven days Mon to Sun in this order; each day has
  the meal slots of the day plan; and on day \<open>i\<close> a slot with the items \<open>items\<close> holds
  the single item at index \<open>i mod length items\<close>, or nothing when the slot is empty.
\<close>

theorem weekly_rotation:
  assumes "distinct (map fst (meals day_plan))"
  shows "map fst (generate_weekly_plan day_plan) =
           [''Mon'', ''Tue'', ''Wed'', ''Thu'', ''Fri'', ''Sat'', ''Sun''] \<and>
         (\<forall>i<7. map fst (snd (generate_weekly_plan day_plan ! i)) = map fst (meals day_plan) \<and>
            (\<forall>(meal, items)\<in>set (meals day_plan).
               map_of (snd (generate_weekly_plan day_plan ! i)) meal =
                 Some (if items = [] then [] else [items ! (i mod length items)])))"
proof (intro conjI allI impI)
  show "map fst (generate_weekly_plan day_plan) =
          [''Mon'', ''Tue'', ''Wed'', ''Thu'', ''Fri'', ''Sat'', ''Sun'']"
    by (simp add: generate_weekly_plan_days)
next
  fix i :: nat
  assume "i < 7"
  then have day: "snd (generate_weekly_plan day_plan ! i) = day_meals_of i (meals day_plan)"
    using less_7_cases[of i] by (auto simp add: generate_weekly_plan_days)
  show "map fst (snd (generate_weekly_plan day_plan ! i)) = map fst (meals day_plan)"
    by (simp add: day day_meals_of_map[OF assms] case_prod_beta comp_def)
  show "\<forall>(meal, items)\<in>set (meals day_plan).
          map_of (snd (generate_weekly_plan day_plan ! i)) meal =
            Some (if items = [] then [] else [items ! (i mod length items)])"
  proof (clarify)
    fix meal items
    assume "(meal, items) \<in> set (meals day_plan)"
    with assms have "map_of (meals day_plan) meal = Some items"
      by simp
    then show "map_of (snd (generate_weekly_plan day_plan ! i)) meal =
                 Some (if items = [] then [] else [items ! (i mod length items)])"
      by (simp add: day day_meals_of_map[OF assms] map_of_map_value)
  qed
qed

text \<open>
  The theorem at a plan with a one-item, a two-item and two empty slots: the lunch slot
  alternates between its two items, the breakfast repeats, the dinner stays empty.
\<close>

theorem weekly_rotation_witness:
  "map fst (generate_weekly_plan example_day_plan) =
     [''Mon'', ''Tue'', ''Wed'', ''Thu'', ''Fri'', ''Sat'', ''Sun''] \<and>
   map_of (snd (generate_weekly_plan example_day_plan ! 3)) ''lunch'' = Some [to_item lentil_soup] \<and>
   map_of (snd (generate_weekly_plan example_day_plan ! 4)) ''lunch'' = Some [to_item paneer] \<and>
   map_of (snd (generate_weekly_plan example_day_plan ! 6)) ''breakfast'' = Some [to_item oats] \<and>
   map_of (snd (generate_weekly_plan example_day_plan ! 2)) ''dinner'' = Some []"
proof -
  have h: "distinct (map fst (meals example_day_plan))"
    by (simp add: example_day_plan_def)
  note t = weekly_rotation[OF h]
  have lunch: "(''lunch'', [to_item paneer, to_item lentil_soup]) \<in> set (meals example_day_plan)"
    and breakfast: "(''breakfast'', [to_item oats]) \<in> set (meals example_day_plan)"
    and dinner: "(''dinner'', []) \<in> set (meals example_day_plan)"
    by (simp_all add: example_day_plan_def)
  have slot: "map_of (snd (generate_weekly_plan example_day_plan ! i)) meal =
                Some (if items = [] then [] else [items ! (i mod length items)])"
    if "i < 7" "(meal, items) \<in> set (meals example_day_plan)" for i meal items
    using t that by blast
  have "map_of (snd (generate_weekly_plan example_day_plan ! 3)) ''lunch'' = Some [to_item lentil_soup]"
    using slot[OF _ lunch, of 3] by (simp add: numeral_2_eq_2[symmetric])
  moreover have "map_of (snd (generate_weekly_plan example_day_plan ! 4)) ''lunch'' = Some [to_item paneer]"
    using slot[OF _ lunch, of 4] by (simp add: numeral_2_eq_2[symmetric])
  moreover have "map_of (snd (generate_weekly_plan example_day_plan ! 6)) ''breakfast'' = Some [to_item oats]"
    using slot[OF _ breakfast, of 6] by (simp add: numeral_2_eq_2[symmetric])
  moreover have "map_of (snd (generate_weekly_plan example_day_plan ! 2)) ''dinner'' = Some []"
    using slot[OF _ dinner, of 2] by (simp add: numeral_2_eq_2[symmetric])
  ultimately show ?thesis
    using t by blast
qed

lemma set_update_subset:
  "set (AList.update k v al) \<subseteq> insert (k, v) (set al)"
  by (induction al) auto

lemma items_from_update:
  "items_from S ms \<Longrightarrow> set v \<subseteq> to_item ` S \<Longrightarrow> items_from S (AList.update k v ms)"
  using set_update_subset[of k v ms] unfolding items_from_def by fastforce

lemma candidates_subset:
  "set (candidates filtered meal) \<subseteq> set filtered"
  by (auto simp add: candidates_def)

lemma picks_from:
  "set cands \<subseteq> S \<Longrightarrow> set (pick_items_for_meal cands t b) \<subseteq> to_item ` S"
  using pick_items_subset[of cands t b] by blast

lemma main_meals_items_from:
  "items_from (set filtered) ms \<Longrightarrow>
   items_from (set filtered)
     (fst (foldl (\<lambda>(ms, planner_notes) meal.
                    (AList.update meal (pick_items_for_meal (candidates filtered meal) (t meal) (b meal)) ms,
                     n planner_notes meal))
                 (ms, ns) names))"
proof (induction names arbitrary: ms ns)
  case Nil
  then show ?case by simp
next
  case (Cons meal names)
  have "items_from (set filtered)
          (AList.update meal (pick_items_for_meal (candidates filtered meal) (t meal) (b meal)) ms)"
    by (rule items_from_update[OF Cons.prems]) (rule picks_from[OF candidates_subset])
  from Cons.IH[OF this] show ?case by simp
qed

lemma assemble_day_plan_items:
  "items_from (set (filter_foods all_foods profile (fst (build_constraints profile))))
     (meals (fst (assemble_day_plan all_foods profile kcal sodium_lim)))"
proof -
  let ?filtered = "filter_foods all_foods profile (fst (build_constraints profile))"
  let ?split = "compute_meal_split profile"
  let ?sbm = "map (\<lambda>(m, v). (m, py_int (fmul (float_of_int sodium_lim) v))) ?split"
  let ?t = "\<lambda>meal. py_round (fmul (dict_item ?split meal) (float_of_int kcal))"
  let ?b = "\<lambda>meal. dict_item ?sbm meal"
  let ?n = "\<lambda>planner_notes meal.
      if pick_items_for_meal (candidates ?filtered meal) (?t meal) (?b meal) = []
      then planner_notes @ [''No candidates found for '' @ meal @
             '' meeting constraints; consider relaxing dislikes or cuisines.'']
      else planner_notes"
  let ?ms0 = "map (\<lambda>(m, v). (m, [])) ?split"
  let ?main = "foldl (\<lambda>(ms, planner_notes) meal.
                    (AList.update meal (pick_items_for_meal (candidates ?filtered meal) (?t meal) (?b meal)) ms,
                     ?n planner_notes meal))
                 (?ms0, []) [''breakfast'', ''lunch'', ''dinner'']"
  have init: "items_from (set ?filtered) ?ms0"
    by (auto simp add: items_from_def)
  have main: "items_from (set ?filtered) (fst ?main)"
    by (rule main_meals_items_from[OF init])
  have snack: "items_from (set ?filtered) (AList.update ''snacks'' v (fst ?main))"
    if "set v \<subseteq> to_item ` set ?filtered" for v
    by (rule items_from_update[OF main that])
  let ?sc = "if candidates ?filtered ''snacks'' \<noteq> [] then candidates ?filtered ''snacks''
             else candidates ?filtered ''snack''"
  have sc: "set ?sc \<subseteq> set ?filtered"
    by (auto simp add: candidates_def)
  have e1: "meals (fst (assemble_day_plan all_foods profile kcal sodium_lim)) =
      AList.update ''snacks'' (pick_items_for_meal ?sc (?t ''snacks'') (?b ''snacks'')) (fst ?main)"
    if "?sc \<noteq> []"
    using that unfolding assemble_day_plan_def Let_def
    by (simp add: case_prod_beta)
  have e2: "meals (fst (assemble_day_plan all_foods profile kcal sodium_lim)) =
      AList.update ''snacks'' [] (fst ?main)"
    if "?sc = []"
    using that unfolding assemble_day_plan_def Let_def
    by (simp add: case_prod_beta)
  show ?thesis
  proof (cases "?sc = []")
    case True
    show ?thesis
      unfolding e2[OF True] by (rule snack) simp
  next
    case False
    show ?thesis
      unfolding e1[OF False] by (rule snack) (rule picks_from[OF sc])
  qed
qed

text \<open>
  Claim C7. For a profile whose diet type is \<^verbatim>\<open>vegan\<close>, every catalog and every
  constraint spec, each food that \<^verbatim>\<open>filter_foods\<close> returns has \<^verbatim>\<open>vegan\<close> among its diet
  types, and each item in a meal slot of the assembled day plan is the item of a food of
  the catalog that has \<^verbatim>\<open>vegan\<close> among its diet types.
\<close>

theorem vegan_only:
  assumes "diet_type (dietary profile) = ''vegan''"
  shows "(\<forall>f\<in>set (filter_foods foods profile constraints). ''vegan'' \<in> set (diet_types f)) \<and>
         (\<forall>(meal, items)\<in>set (meals (fst (assemble_day_plan foods profile kcal sodium_lim))).
            \<forall>item\<in>set items. \<exists>f\<in>set foods. item = to_item f \<and> ''vegan'' \<in> set (diet_types f))"
proof (intro conjI ballI)
  fix f
  assume "f \<in> set (filter_foods foods profile constraints)"
  then show "''vegan'' \<in> set (diet_types f)"
    using filter_foods_allowed allowed_diet_type assms by metis
next
  fix slot
  assume slot: "slot \<in> set (meals (fst (assemble_day_plan foods profile kcal sodium_lim)))"
  show "case slot of (meal, items) \<Rightarrow>
          \<forall>item\<in>set items. \<exists>f\<in>set foods. item = to_item f \<and> ''vegan'' \<in> set (diet_types f)"
  proof (clarify)
    fix meal items item
    assume "slot = (meal, items)" "item \<in> set items"
    with slot assemble_day_plan_items[of foods profile kcal sodium_lim]
    obtain f where f: "f \<in> set (filter_foods foods profile (fst (build_constraints profile)))"
      "item = to_item f"
      unfolding items_from_def by blast
    from filter_foods_allowed[OF f(1)] allowed_diet_type assms
    have "f \<in> set foods" "''vegan'' \<in> set (diet_types f)"
      by metis+
    with f(2) show "\<exists>f\<in>set foods. item = to_item f \<and> ''vegan'' \<in> set (diet_types f)"
      by blast
  qed
qed

text \<open>
  For the vegan variant of the scenario profile the example catalog is filtered down to
  the oats and the lentil soup.
\<close>

theorem vegan_only_witness:
  "diet_type (dietary vegan_profile) = ''vegan'' \<and>
   map FoodItem.name (filter_foods example_catalog vegan_profile (fst (build_constraints vegan_profile))) =
     [''Oats porridge (water)'', ''Lentil soup''] \<and>
   ''vegan'' \<in> set (diet_types oats)"
proof -
  have h: "diet_type (dietary vegan_profile) = ''vegan''"
    by code_simp
  have v: "map FoodItem.name (filter_foods example_catalog vegan_profile (fst (build_constraints vegan_profile))) =
     [''Oats porridge (water)'', ''Lentil soup'']"
    by code_simp
  have o: "oats \<in> set (filter_foods example_catalog vegan_profile (fst (build_constraints vegan_profile)))"
    by code_simp
  note t = vegan_only[OF h, of example_catalog "fst (build_constraints vegan_profile)" 2008 2000]
  from t o have a: "''vegan'' \<in> set (diet_types oats)"
    by blast
  from h v a show ?thesis
    by (intro conjI)
qed

section \<open>Calculators: proofs\<close>

text \<open>
  The scenario in binary64: the BMR is 1673.75, the product with the factors 1.2 and 1.0
  is 2008.5 exactly, and \<^verbatim>\<open>round\<close> takes this tie to the even integer 2008.
\<close>

lemma scenario_tdee: "tdee_calories scenario_profile = 2008"
  by code_simp

lemma scenario_unrounded:
  "fmul (fmul (bmr_mifflin_st_jeor scenario_profile) (activity_factor ''sedentary'')) (stress_factor ''low'')
     = 4017 / 2"
  by code_simp


text \<open>
  Claim C5, as the code has it. For every profile of a 45 year old man of 175 cm and 80 kg
  with the activity level \<^verbatim>\<open>sedentary\<close> and the stress level \<^verbatim>\<open>low\<close>, with no calorie
  override and neither the weight-loss nor the weight-gain toggle,
  \<^verbatim>\<open>estimate_daily_calories\<close> returns 2008, the value 2008.5 rounded to the nearest
  integer with the tie going to the even one.
\<close>

theorem scenario_calories:
  assumes "age (personal profile) = 45" "gender (personal profile) = ''male''"
    "height_cm (personal profile) = 175" "weight_kg (personal profile) = 80"
    "activity_level (lifestyle profile) = ''sedentary''" "stress_level (lifestyle profile) = ''low''"
    "daily_calories (nutrition profile) = None"
    "\<not> weight_loss (special profile)" "\<not> weight_gain (special profile)"
  shows "estimate_daily_calories profile = 2008"
proof -
  have "tdee_calories profile = tdee_calories scenario_profile"
    using assms
    by (simp add: tdee_calories_def bmr_mifflin_st_jeor_def scenario_profile_def cong: if_cong)
  with scenario_tdee assms(7) show ?thesis
    by (simp add: estimate_daily_calories_def)
qed

theorem scenario_calories_witness:
  "estimate_daily_calories scenario_profile = 2008"
  by (rule scenario_calories) (simp_all add: scenario_profile_def)

text \<open>The scenario profile does not get 2009: the unrounded value is the tie 2008.5.\<close>

theorem scenario_calories_counterexample:
  "fmul (fmul (bmr_mifflin_st_jeor scenario_profile) (activity_factor ''sedentary'')) (stress_factor ''low'')
     = 4017 / 2 \<and>
   py_round (4017 / 2) = 2008 \<and>
   estimate_daily_calories scenario_profile \<noteq> 2009"
proof -
  have "py_round (4017 / 2) = 2008"
    by code_simp
  moreover have "estimate_daily_calories scenario_profile = 2008"
    using scenario_tdee by (simp add: estimate_daily_calories_def scenario_profile_def)
  ultimately show ?thesis
    using scenario_unrounded by simp
qed



section \<open>Meal split: proofs\<close>

text \<open>
  The float operations on the path for three meals and moderate snacking: the snack
  delta is zero, the four default fractions add up to 0.9999999999999999 (one unit in the last place below 1),
  and each fraction divided by that sum and rounded to four decimals is the fraction again.
\<close>

lemma lower_moderate: "lower ''moderate'' = ''moderate''"
  by code_simp

lemma default_split_total:
  "fadd (fadd (fadd (fadd 0 (fl (25 / 100))) (fl (35 / 100))) (fl (30 / 100))) (fl (10 / 100)) =
     fl (9007199254740991 / 9007199254740992)"
  by code_simp

lemma snack_delta_zero: "fsub (fl (10 / 100)) (fl (10 / 100)) = 0"
  by code_simp

lemma epsilon_positive: "\<not> fl (1 / 1000000) < 0"
  by code_simp

lemma default_split_normalised:
  "py_round_nd (fdiv (fl (25 / 100)) (fl (9007199254740991 / 9007199254740992))) 4 = fl (25 / 100)"
  "py_round_nd (fdiv (fl (35 / 100)) (fl (9007199254740991 / 9007199254740992))) 4 = fl (35 / 100)"
  "py_round_nd (fdiv (fl (30 / 100)) (fl (9007199254740991 / 9007199254740992))) 4 = fl (30 / 100)"
  "py_round_nd (fdiv (fl (10 / 100)) (fl (9007199254740991 / 9007199254740992))) 4 = fl (10 / 100)"
  by code_simp+

text \<open>
  Claim C6. For every profile with \<^verbatim>\<open>meal_frequency = 3\<close> and the snacking preference
  \<^verbatim>\<open>moderate\<close>, \<^verbatim>\<open>_compute_meal_split\<close> returns, after the normalization and the rounding
  to four decimals, the floats that the literals 0.25, 0.35, 0.30 and 0.10 denote for
  breakfast, lunch, dinner and snacks.
\<close>

theorem default_meal_split:
  assumes "meal_frequency (dietary profile) = 3"
    and "snacking_preference (dietary profile) = ''moderate''"
  shows "compute_meal_split profile =
           [(''breakfast'', fl (25 / 100)), (''lunch'', fl (35 / 100)),
            (''dinner'', fl (30 / 100)), (''snacks'', fl (10 / 100))]"
  using lower_moderate default_split_total snack_delta_zero epsilon_positive default_split_normalised
  by (simp add: compute_meal_split_def Let_def assms DEFAULT_MEAL_SPLIT_def dict_get_def dict_item_def)

theorem default_meal_split_witness:
  "compute_meal_split scenario_profile =
     [(''breakfast'', fl (25 / 100)), (''lunch'', fl (35 / 100)),
      (''dinner'', fl (30 / 100)), (''snacks'', fl (10 / 100))] \<and>
   fl (25 / 100) = 1 / 4"
proof -
  have "fl (25 / 100) = 1 / 4"
    by code_simp
  moreover have "compute_meal_split scenario_profile =
     [(''breakfast'', fl (25 / 100)), (''lunch'', fl (35 / 100)),
      (''dinner'', fl (30 / 100)), (''snacks'', fl (10 / 100))]"
    by (rule default_meal_split) (simp_all add: scenario_profile_def)
  ultimately show ?thesis
    by (intro conjI)
qed

section \<open>Macro targets: proofs\<close>

text \<open>
  The literals of \<^verbatim>\<open>compute_macros\<close> and the differences it can form, in binary64. The
  branches are driven by five conditions; in each of the 32 cases the percentages are
  not negative and their sum differs from 1 by at most \<open>1 / 2 ^ 54\<close>.
\<close>

lemma pct_literals:
  "fl (9 / 50) = 3242591731706757 / 18014398509481984"
  "fl (1 / 5) = 3602879701896397 / 18014398509481984"
  "fl (1 / 4) = 1 / 4"
  "fl (3 / 10) = 5404319552844595 / 18014398509481984"
  "fl (2 / 5) = 3602879701896397 / 9007199254740992"
  "fl (9 / 20) = 8106479329266893 / 18014398509481984"
  "fl (47 / 100) = 2116691824864133 / 4503599627370496"
  "fl (1 / 2) = 1 / 2"
  "fl 1 = 1"
  by code_simp+

lemma pct_differences:
  "fsub (3152519739159347 / 4503599627370496) (3602879701896397 / 9007199254740992) = 2702159776422297 / 9007199254740992"
  "fsub (3152519739159347 / 4503599627370496) (8106479329266893 / 18014398509481984) = 4503599627370495 / 18014398509481984"
  "fsub (3152519739159347 / 4503599627370496) (2116691824864133 / 4503599627370496) = 517913957147607 / 2251799813685248"
  "fsub (3152519739159347 / 4503599627370496) (1 / 2) = 900719925474099 / 4503599627370496"
  "fsub (6305039478318695 / 9007199254740992) (3602879701896397 / 9007199254740992) = 1351079888211149 / 4503599627370496"
  "fsub (3 / 4) (8106479329266893 / 18014398509481984) = 5404319552844595 / 18014398509481984"
  "fsub (3692951694443807 / 4503599627370496) (2116691824864133 / 4503599627370496) = 788129934789837 / 2251799813685248"
  "fsub (3692951694443807 / 4503599627370496) (1 / 2) = 1441151880758559 / 4503599627370496"
  "fsub 1 (3242591731706757 / 18014398509481984) = 3692951694443807 / 4503599627370496"
  "fsub 1 (4503599627370495 / 18014398509481984) = 3 / 4"
  "fsub 1 (2702159776422297 / 9007199254740992) = 6305039478318695 / 9007199254740992"
  "fsub 1 (5404319552844595 / 18014398509481984) = 3152519739159347 / 4503599627370496"
  by code_simp+


lemma macro_pcts_of_sum:
  "case macro_pcts_of a b c d e of (p, q, r) \<Rightarrow>
     0 \<le> p \<and> 0 \<le> q \<and> 0 \<le> r \<and> \<bar>p + q + r - 1\<bar> \<le> 1 / 2 ^ 54"
  by (cases a; cases b; cases c; cases d; cases e;
      simp add: macro_pcts_of_def pct_literals pct_differences)

lemma macro_pcts_sum:
  "case macro_pcts profile of (p, c, f) \<Rightarrow>
     0 \<le> p \<and> 0 \<le> c \<and> 0 \<le> f \<and> \<bar>p + c + f - 1\<bar> \<le> 1 / 2 ^ 54"
  unfolding macro_pcts_def Let_def by (rule macro_pcts_of_sum)

text \<open>Rounding to 53 bits changes a number by at most the fraction \<open>1 / 2 ^ 53\<close> of it.\<close>

lemma round_half_even_err: "\<bar>of_int (round_half_even y) - y\<bar> \<le> 1 / 2"
proof -
  define f where "f = \<lfloor>y\<rfloor>"
  have "of_int f \<le> y" "y < of_int f + 1"
    unfolding f_def by linarith+
  then show ?thesis
    unfolding round_half_even_def Let_def f_def[symmetric] by (auto simp: abs_if)
qed

lemma ilog2_le:
  assumes "0 < x"
  shows "2 powi ilog2 x \<le> x"
proof (cases "1 \<le> x")
  case True
  define n where "n = \<lfloor>x\<rfloor>"
  have n: "0 < n" using True unfolding n_def by linarith
  have b: "2 ^ nat (bitlen n - 1) \<le> n" using bitlen_bounds[OF n] by simp
  have k: "0 \<le> bitlen n - 1" using n bitlen_nonneg[of n] bitlen_eq_zero_iff[of n] by simp
  have "(2::rat) powi (bitlen n - 1) = of_int (2 ^ nat (bitlen n - 1))"
    using k by (simp add: power_int_def)
  also have "\<dots> \<le> of_int n" using b by (simp only: of_int_le_iff)
  also have "\<dots> \<le> x" unfolding n_def by linarith
  finally show ?thesis using True by (simp add: ilog2_def n_def)
next
  case False
  define m where "m = \<lfloor>1 / x\<rfloor>"
  define k where "k = bitlen m"
  have "1 < 1 / x" using False assms by simp
  then have m: "0 < m" unfolding m_def by linarith
  have kpos: "0 < k" unfolding k_def using m bitlen_nonneg[of m] bitlen_eq_zero_iff[of m] by simp
  have "m < 2 ^ nat k" using bitlen_bounds[OF m] unfolding k_def by simp
  then have "m + 1 \<le> 2 ^ nat k" by simp
  then have "(of_int (m + 1) :: rat) \<le> of_int (2 ^ nat k)" by (simp only: of_int_le_iff)
  moreover have "1 / x < of_int (m + 1)" unfolding m_def by simp linarith
  ultimately have lt: "1 / x < 2 ^ nat k" by simp
  then have xk: "1 < x * 2 ^ nat k" using assms by (simp add: field_simps)
  have il: "ilog2 x = (if x * 2 ^ nat k = 2 then 1 - k else - k)"
    using False by (simp add: ilog2_def Let_def m_def k_def)
  show ?thesis
  proof (cases "x * 2 ^ nat k = 2")
    case True
    have "nat k = Suc (nat (k - 1))" using kpos by simp
    then have "(2::rat) ^ nat k = 2 * 2 ^ nat (k - 1)" by simp
    then have "x * 2 ^ nat (k - 1) = 1" using True by simp
    then have xe: "x = 1 / 2 ^ nat (k - 1)" by (simp add: field_simps)
    have p: "(2::rat) powi (1 - k) = 1 / 2 ^ nat (k - 1)"
      using kpos by (simp add: power_int_def field_simps)
    have i: "ilog2 x = 1 - k" using il True by simp
    show ?thesis unfolding i p using xe by simp
  next
    case F2: False
    have p: "(2::rat) powi (- k) = 1 / 2 ^ nat k"
      using kpos by (simp add: power_int_def field_simps)
    have xl: "1 / 2 ^ nat k \<le> x" using xk by (simp add: field_simps)
    have i: "ilog2 x = - k" using il F2 by simp
    show ?thesis unfolding i p using xl .
  qed
qed

lemma fl_err: "\<bar>fl x - x\<bar> \<le> \<bar>x\<bar> / 2 ^ 53"
proof (cases "x = 0")
  case True
  then show ?thesis by (simp add: fl_def)
next
  case False
  define e where "e = ilog2 \<bar>x\<bar>"
  define u where "u = (2::rat) powi (e - 52)"
  have upos: "0 < u" unfolding u_def by simp
  have le: "2 powi e \<le> \<bar>x\<bar>" unfolding e_def using False by (intro ilog2_le) simp
  have fl: "fl x = of_int (round_half_even (x / u)) * u"
    using False by (simp add: fl_def Let_def u_def e_def)
  have "fl x - x = (of_int (round_half_even (x / u)) - x / u) * u"
    using upos by (simp add: fl field_simps)
  then have "\<bar>fl x - x\<bar> = \<bar>of_int (round_half_even (x / u)) - x / u\<bar> * u"
    using upos by (simp add: abs_mult)
  also have "\<dots> \<le> 1 / 2 * u"
    using round_half_even_err[of "x / u"] upos by (intro mult_right_mono) simp_all
  also have "\<dots> = 2 powi e / 2 ^ 53"
    unfolding u_def by (simp add: power_int_diff)
  also have "\<dots> \<le> \<bar>x\<bar> / 2 ^ 53" using le by (simp add: divide_right_mono)
  finally show ?thesis .
qed

text \<open>
  A gram value is \<^verbatim>\<open>(calories * pct) / d\<close>: two roundings, so \<open>d\<close> times the gram value
  is the exact product up to the fraction \<open>2 * u + u * u\<close> of it, for \<open>u = 1 / 2 ^ 53\<close>.
\<close>

lemma scaled_err:
  fixes A B K d u :: rat
  assumes A: "\<bar>A - K\<bar> \<le> \<bar>K\<bar> * u" and B: "\<bar>B - A / d\<bar> \<le> \<bar>A / d\<bar> * u"
    and d: "0 < d" and u: "0 \<le> u"
  shows "\<bar>d * B - K\<bar> \<le> \<bar>K\<bar> * (2 * u + u * u)"
proof -
  have "d * B - A = d * (B - A / d)" using d by (simp add: field_simps)
  then have "\<bar>d * B - A\<bar> = d * \<bar>B - A / d\<bar>" using d by (simp add: abs_mult)
  also have "\<dots> \<le> d * (\<bar>A / d\<bar> * u)" using B d by (intro mult_left_mono) simp_all
  also have "\<dots> = \<bar>A\<bar> * u" using d by (simp add: abs_divide)
  finally have 1: "\<bar>d * B - A\<bar> \<le> \<bar>A\<bar> * u" .
  have "\<bar>A\<bar> \<le> \<bar>K\<bar> + \<bar>K\<bar> * u" using A by linarith
  then have "\<bar>A\<bar> * u \<le> (\<bar>K\<bar> + \<bar>K\<bar> * u) * u" using u by (intro mult_right_mono)
  then have 2: "\<bar>A\<bar> * u \<le> \<bar>K\<bar> * u + \<bar>K\<bar> * (u * u)" by (simp add: algebra_simps)
  have "\<bar>d * B - K\<bar> \<le> \<bar>d * B - A\<bar> + \<bar>A - K\<bar>" by linarith
  with 1 2 A show ?thesis by (simp add: algebra_simps)
qed

lemma fl_small_ints: "fl 4 = 4" "fl 9 = 9"
  by code_simp+

lemma gram_err:
  assumes "d = 4 \<or> d = 9"
  shows "\<bar>d * fdiv (fmul K q) (fl d) - K * q\<bar> \<le> \<bar>K * q\<bar> * (2 * (1 / 2 ^ 53) + 1 / 2 ^ 53 * (1 / 2 ^ 53))"
proof -
  have d: "fl d = d" "0 < d" using assms fl_small_ints by auto
  have A: "\<bar>fl (K * q) - K * q\<bar> \<le> \<bar>K * q\<bar> * (1 / 2 ^ 53)"
    using fl_err[of "K * q"] by simp
  have B: "\<bar>fl (fl (K * q) / d) - fl (K * q) / d\<bar> \<le> \<bar>fl (K * q) / d\<bar> * (1 / 2 ^ 53)"
    using fl_err[of "fl (K * q) / d"] by simp
  show ?thesis
    unfolding fdiv_def fmul_def d by (rule scaled_err[OF A B d(2)]) simp
qed

lemma grams_energy:
  fixes p c f :: rat and n :: int
  assumes p: "0 \<le> p" and c: "0 \<le> c" and f: "0 \<le> f"
    and s: "\<bar>p + c + f - 1\<bar> \<le> 1 / 2 ^ 54"
  defines "K \<equiv> float_of_int n"
  shows "\<bar>4 * fdiv (fmul K p) (fl 4) + 4 * fdiv (fmul K c) (fl 4) + 9 * fdiv (fmul K f) (fl 9)
           - of_int n\<bar> \<le> \<bar>of_int n\<bar> / 2 ^ 51"
proof -
  define a where "a = \<bar>K\<bar>"
  define P where "P = 4 * fdiv (fmul K p) (fl 4)"
  define C where "C = 4 * fdiv (fmul K c) (fl 4)"
  define F where "F = 9 * fdiv (fmul K f) (fl 9)"
  define h :: rat where "h = 2 * (1 / 2 ^ 53) + 1 / 2 ^ 53 * (1 / 2 ^ 53)"
  have a0: "0 \<le> a" unfolding a_def by simp
  have h0: "0 \<le> h" unfolding h_def by simp
  have eP: "\<bar>P - K * p\<bar> \<le> a * p * h"
    using gram_err[of 4 K p] p unfolding P_def h_def a_def by (simp add: abs_mult)
  have eC: "\<bar>C - K * c\<bar> \<le> a * c * h"
    using gram_err[of 4 K c] c unfolding C_def h_def a_def by (simp add: abs_mult)
  have eF: "\<bar>F - K * f\<bar> \<le> a * f * h"
    using gram_err[of 9 K f] f unfolding F_def h_def a_def by (simp add: abs_mult)
  have "P + C + F - K * (p + c + f) = (P - K * p) + (C - K * c) + (F - K * f)"
    by (simp add: algebra_simps)
  then have "\<bar>P + C + F - K * (p + c + f)\<bar> \<le> a * p * h + a * c * h + a * f * h"
    using eP eC eF by linarith
  also have "\<dots> = (a * h) * (p + c + f)" by (simp add: algebra_simps)
  also have "\<dots> \<le> (a * h) * (1 + 1 / 2 ^ 54)"
    using s a0 h0 by (intro mult_left_mono) (auto simp: abs_if split: if_splits)
  finally have 1: "\<bar>P + C + F - K * (p + c + f)\<bar> \<le> (a * h) * (1 + 1 / 2 ^ 54)" .
  have "K * (p + c + f) - K = K * (p + c + f - 1)" by (simp add: algebra_simps)
  then have "\<bar>K * (p + c + f) - K\<bar> = a * \<bar>p + c + f - 1\<bar>"
    unfolding a_def by (simp add: abs_mult)
  also have "\<dots> \<le> a * (1 / 2 ^ 54)" using s a0 by (intro mult_left_mono)
  finally have 2: "\<bar>K * (p + c + f) - K\<bar> \<le> a * (1 / 2 ^ 54)" .
  have 3: "\<bar>K - of_int n\<bar> \<le> \<bar>of_int n\<bar> / 2 ^ 53"
    unfolding K_def float_of_int_def by (rule fl_err)
  then have 4: "a \<le> \<bar>of_int n\<bar> + \<bar>of_int n\<bar> / 2 ^ 53" unfolding a_def by linarith
  have "\<bar>P + C + F - of_int n\<bar> \<le>
          \<bar>P + C + F - K * (p + c + f)\<bar> + \<bar>K * (p + c + f) - K\<bar> + \<bar>K - of_int n\<bar>"
    by linarith
  with 1 2 3 have 5: "\<bar>P + C + F - of_int n\<bar> \<le>
      a * (h * (1 + 1 / 2 ^ 54) + 1 / 2 ^ 54) + \<bar>of_int n\<bar> / 2 ^ 53"
    by (simp add: algebra_simps)
  have "\<bar>P + C + F - of_int n\<bar> \<le> \<bar>of_int n\<bar> / 2 ^ 51"
    using 4 5 unfolding h_def by (simp add: field_simps)
  then show ?thesis unfolding P_def C_def F_def .
qed

text \<open>
  Claim C9, as the code has it. When the three macro overrides are not all supplied, the
  percentages after every adjustment sum to 1 up to \<open>1 / 2 ^ 54\<close>, the unrounded gram
  values satisfy \<^verbatim>\<open>4 * protein + 4 * carbs + 9 * fats = calories\<close> up to the relative error
  \<open>1 / 2 ^ 51\<close>, and the returned values are these gram values rounded to one decimal.
  The sum and the energy are taken in exact arithmetic on the values of the floats.
\<close>

theorem macro_energy_consistency:
  assumes "\<not> macros_overridden profile"
  shows "case macro_pcts profile of (p, c, f) \<Rightarrow>
         (case macro_grams profile kcal of (protein, carbs, fats) \<Rightarrow>
            \<bar>p + c + f - 1\<bar> \<le> 1 / 2 ^ 54 \<and>
            \<bar>4 * protein + 4 * carbs + 9 * fats - of_int kcal\<bar> \<le> \<bar>of_int kcal\<bar> / 2 ^ 51 \<and>
            compute_macros profile kcal =
              [(''protein_g'', py_round_nd protein 1),
               (''carbs_g'', py_round_nd carbs 1),
               (''fats_g'', py_round_nd fats 1)])"
proof -
  obtain p c f where pcf: "macro_pcts profile = (p, c, f)"
    by (cases "macro_pcts profile") auto
  have b: "0 \<le> p" "0 \<le> c" "0 \<le> f" "\<bar>p + c + f - 1\<bar> \<le> 1 / 2 ^ 54"
    using macro_pcts_sum[of profile] unfolding pcf by simp_all
  have g: "macro_grams profile kcal =
      (fdiv (fmul (float_of_int kcal) p) (fl 4),
       fdiv (fmul (float_of_int kcal) c) (fl 4),
       fdiv (fmul (float_of_int kcal) f) (fl 9))"
    by (simp add: macro_grams_def pcf Let_def)
  have m: "compute_macros profile kcal =
      [(''protein_g'', py_round_nd (fdiv (fmul (float_of_int kcal) p) (fl 4)) 1),
       (''carbs_g'', py_round_nd (fdiv (fmul (float_of_int kcal) c) (fl 4)) 1),
       (''fats_g'', py_round_nd (fdiv (fmul (float_of_int kcal) f) (fl 9)) 1)]"
    using assms by (simp add: compute_macros_def g)
  show ?thesis
    unfolding pcf g prod.case using b(4) grams_energy[OF b, of kcal] m by (intro conjI)
qed

text \<open>
  With \<^verbatim>\<open>high_protein\<close> and \<^verbatim>\<open>weight_loss\<close> the percentages are 0.3, 0.4 and
  0.29999999999999993; at 2008 kcal the gram values are 150.6, 200.8 and 66.93333333333332.
\<close>

lemma gram_facts:
  "float_of_int 2008 = 2008"
  "fmul 2008 (5404319552844595 / 18014398509481984) = 5298766436578099 / 8796093022208"
  "fdiv (5298766436578099 / 8796093022208) 4 = 5298766436578099 / 35184372088832"
  "fmul 2008 (3602879701896397 / 9007199254740992) = 3532510957718733 / 4398046511104"
  "fdiv (3532510957718733 / 4398046511104) 4 = 3532510957718733 / 17592186044416"
  "fmul 2008 (2702159776422297 / 9007199254740992) = 2649383218289049 / 4398046511104"
  "fdiv (2649383218289049 / 4398046511104) 9 = 4710014610291643 / 70368744177664"
  "fmul 4 (5298766436578099 / 35184372088832) = 5298766436578099 / 8796093022208"
  "fmul 4 (3532510957718733 / 17592186044416) = 3532510957718733 / 4398046511104"
  "fmul 9 (4710014610291643 / 70368744177664) = 2649383218289049 / 4398046511104"
  "fadd (5298766436578099 / 8796093022208) (3532510957718733 / 4398046511104) = 3090947088003891 / 2199023255552"
  "fadd (3090947088003891 / 2199023255552) (2649383218289049 / 4398046511104) = 8831277394296831 / 4398046511104"
  "fadd (5404319552844595 / 18014398509481984) (3602879701896397 / 9007199254740992) = 3152519739159347 / 4503599627370496"
  "fadd (3152519739159347 / 4503599627370496) (2702159776422297 / 9007199254740992) = 9007199254740991 / 9007199254740992"
  by code_simp+

lemma protein_loss_not_overridden: "\<not> macros_overridden protein_loss_profile"
  by (simp add: macros_overridden_def protein_loss_profile_def scenario_profile_def)

lemma protein_loss_pcts:
  "macro_pcts protein_loss_profile =
     (5404319552844595 / 18014398509481984, 3602879701896397 / 9007199254740992,
      2702159776422297 / 9007199254740992)"
  by (simp add: macro_pcts_def protein_loss_profile_def scenario_profile_def
      high_cholesterol_def macro_pcts_of_def pct_literals pct_differences)

lemma protein_loss_grams:
  "macro_grams protein_loss_profile 2008 =
     (5298766436578099 / 35184372088832, 3532510957718733 / 17592186044416,
      4710014610291643 / 70368744177664)"
  by (simp add: macro_grams_def protein_loss_pcts fl_small_ints gram_facts)

text \<open>The bounds at the profile with \<^verbatim>\<open>high_protein\<close> and \<^verbatim>\<open>weight_loss\<close>, at 2008 kcal.\<close>

theorem macro_energy_consistency_witness:
  "\<not> macros_overridden protein_loss_profile \<and>
   (case macro_pcts protein_loss_profile of (p, c, f) \<Rightarrow>
    (case macro_grams protein_loss_profile 2008 of (protein, carbs, fats) \<Rightarrow>
       \<bar>p + c + f - 1\<bar> \<le> 1 / 2 ^ 54 \<and>
       \<bar>4 * protein + 4 * carbs + 9 * fats - of_int 2008\<bar> \<le> \<bar>of_int 2008\<bar> / 2 ^ 51 \<and>
       compute_macros protein_loss_profile 2008 =
         [(''protein_g'', py_round_nd protein 1),
          (''carbs_g'', py_round_nd carbs 1),
          (''fats_g'', py_round_nd fats 1)]))"
  using protein_loss_not_overridden
    macro_energy_consistency[OF protein_loss_not_overridden, of 2008]
  by (rule conjI)

text \<open>
  At that profile the percentages do not sum to 1 and the energy of the unrounded gram
  values is not 2008, neither in exact arithmetic on the values of the floats nor when the
  sums are themselves evaluated in floats, from left to right.
\<close>

theorem macro_energy_counterexample:
  "\<not> macros_overridden protein_loss_profile \<and>
   (case macro_pcts protein_loss_profile of (p, c, f) \<Rightarrow>
      p + c + f = 1 - 1 / 2 ^ 54 \<and> fadd (fadd p c) f = 1 - 1 / 2 ^ 53) \<and>
   (case macro_grams protein_loss_profile 2008 of (protein, carbs, fats) \<Rightarrow>
      4 * protein + 4 * carbs + 9 * fats = 2008 - 5 / 2 ^ 46 \<and>
      fadd (fadd (fmul 4 protein) (fmul 4 carbs)) (fmul 9 fats) = 2008 - 1 / 2 ^ 42)"
  unfolding protein_loss_pcts protein_loss_grams prod.case gram_facts
  using protein_loss_not_overridden by simp

end
